theory Spec2Isabelle
  imports Complex_Main
begin

section \<open>The admin orders screen (AdminOrders.jsx): data model\<close>

text \<open>
  The component keeps its data in React state cells and talks to a remote orders API.
  A state cell is a field of the record \<open>state\<close>; the remote API, the toast
  notifications and the browser download are the outside world, kept in the record
  \<open>world\<close> next to the state cells. JavaScript values that the handlers inspect
  for truthiness are modelled with the falsy value made explicit: the empty string for a
  string, \<open>None\<close> for \<open>null\<close>/\<open>undefined\<close>.
\<close>

definition ITEMS_PER_PAGE :: int where
  "ITEMS_PER_PAGE = 10"

text \<open>A request parameter object: an ordered list of keys with number or string values.\<close>

datatype jsval = JNum int | JStr string

type_synonym params = "(string \<times> jsval) list"

text \<open>
  A \<open>Date\<close> object: its identity (two picks of the same day are two objects) and
  the string its \<open>toISOString()\<close> returns.
\<close>

record date =
  date_ref :: nat
  date_iso :: string

definition toISOString :: "date \<Rightarrow> string" where
  "toISOString d = date_iso d"

record order_summary =
  oid :: string
  status :: string
  totalAmount :: int

record stats =
  totalOrders :: int
  totalRevenue :: rat
  averageOrderValue :: rat
  statusBreakdown :: "(string \<times> int) list"
  dailyStats :: "params list"

text \<open>
  A thrown value is an object (an \<open>Error\<close>, or the error of the HTTP client):
  \<open>message\<close> is \<open>err.message\<close> and \<open>response_data_error\<close> is
  \<open>err.response?.data?.error\<close>; the empty string stands for an absent field.
\<close>

record exn =
  message :: string
  response_data_error :: string

definition Error :: "string \<Rightarrow> exn" where
  "Error msg = \<lparr>message = msg, response_data_error = []\<rparr>"

text \<open>JavaScript's \<open>a || b\<close> on strings: the first operand unless it is empty.\<close>

definition js_or :: "string \<Rightarrow> string \<Rightarrow> string" where
  "js_or a b = (if a = [] then b else a)"

text \<open>
  The state cells of the component, in the order of their \<open>useState\<close> calls (the
  cells that only drive the layout, \<open>selectedOrder\<close>, \<open>viewMode\<close> and
  \<open>showFilters\<close>, are left out). \<open>selectedOrders\<close> is a JavaScript \<open>Set\<close>:
  a list without duplicates in insertion order, which is the order \<open>Array.from\<close>
  iterates it in.
\<close>

record state =
  orders :: "order_summary list"
  loading :: bool
  error :: "string option"
  startDate :: "date option"
  endDate :: "date option"
  orderStats :: "stats option"
  filterStatus :: string
  updatingStatus :: "string option"
  currentPage :: int
  totalPages :: int
  exportLoading :: bool
  statsLoading :: bool
  searchTerm :: string
  sortField :: string
  sortOrder :: string
  selectedOrders :: "string list"
  bulkActionLoading :: bool

definition initial_state :: state where
  "initial_state =
     \<lparr>orders = [], loading = True, error = None, startDate = None, endDate = None,
      orderStats = None, filterStatus = [], updatingStatus = None, currentPage = 1,
      totalPages = 1, exportLoading = False, statsLoading = False, searchTerm = [],
      sortField = ''createdAt'', sortOrder = ''desc'', selectedOrders = [],
      bulkActionLoading = False\<rparr>"

subsection \<open>The remote API and the outside world\<close>

text \<open>
  The response of the list request: \<open>resp_orders\<close> is \<open>None\<close> when the
  \<open>orders\<close> field is missing (an empty array is present, and truthy);
  \<open>total\<close> is an integer, as the service answers it.
\<close>

record orders_response =
  resp_orders :: "order_summary list option"
  resp_total :: int

record stats_response =
  resp_totalOrders :: "int option"
  resp_totalRevenue :: "rat option"
  resp_averageOrderValue :: "rat option"
  resp_statusBreakdown :: "(string \<times> int) list option"
  resp_dailyStats :: "params list option"

text \<open>
  \<open>ordersApi\<close> lives in \<open>services/api\<close>, outside this file, so it is a parameter of
  every handler: each call reads the server's state \<open>'srv\<close> and either throws
  (\<open>Inl\<close>) or resolves (\<open>Inr\<close>); a resolved response may still be \<open>null\<close>
  (\<open>None\<close>) or lack fields. Only \<open>updateOrderStatus\<close> changes the server.
\<close>

record 'srv api =
  getAllOrders :: "'srv \<Rightarrow> params \<Rightarrow> exn + orders_response option"
  getOrderStats :: "'srv \<Rightarrow> params \<Rightarrow> exn + stats_response option"
  updateOrderStatus :: "'srv \<Rightarrow> string \<Rightarrow> string \<Rightarrow> exn + 'srv"
  exportOrders :: "'srv \<Rightarrow> params \<Rightarrow> exn + string option"

datatype api_call =
  GetAllOrders params
| GetOrderStats params
| UpdateOrderStatus string string
| ExportOrders params

datatype toast = ToastError string | ToastSuccess string

text \<open>
  The world: the state cells, the server, and three logs in the order of the events:
  the API calls made, the toasts shown, and the files offered for download
  (name and content).
\<close>

record 'srv world =
  ui :: state
  server :: 'srv
  calls :: "api_call list"
  toasts :: "toast list"
  downloads :: "(string \<times> string) list"

definition log_call :: "api_call \<Rightarrow> 'srv world \<Rightarrow> 'srv world" where
  "log_call c w = w\<lparr>calls := calls w @ [c]\<rparr>"

definition toast_error :: "string \<Rightarrow> 'srv world \<Rightarrow> 'srv world" where
  "toast_error msg w = w\<lparr>toasts := toasts w @ [ToastError msg]\<rparr>"

definition toast_success :: "string \<Rightarrow> 'srv world \<Rightarrow> 'srv world" where
  "toast_success msg w = w\<lparr>toasts := toasts w @ [ToastSuccess msg]\<rparr>"

text \<open>The setters of the state cells.\<close>

definition setOrders :: "order_summary list \<Rightarrow> 'srv world \<Rightarrow> 'srv world" where
  "setOrders v w = w\<lparr>ui := (ui w)\<lparr>orders := v\<rparr>\<rparr>"

definition setLoading :: "bool \<Rightarrow> 'srv world \<Rightarrow> 'srv world" where
  "setLoading v w = w\<lparr>ui := (ui w)\<lparr>loading := v\<rparr>\<rparr>"

definition setError :: "string option \<Rightarrow> 'srv world \<Rightarrow> 'srv world" where
  "setError v w = w\<lparr>ui := (ui w)\<lparr>error := v\<rparr>\<rparr>"

definition setOrderStats :: "stats option \<Rightarrow> 'srv world \<Rightarrow> 'srv world" where
  "setOrderStats v w = w\<lparr>ui := (ui w)\<lparr>orderStats := v\<rparr>\<rparr>"

definition setUpdatingStatus :: "string option \<Rightarrow> 'srv world \<Rightarrow> 'srv world" where
  "setUpdatingStatus v w = w\<lparr>ui := (ui w)\<lparr>updatingStatus := v\<rparr>\<rparr>"

definition setCurrentPage :: "int \<Rightarrow> 'srv world \<Rightarrow> 'srv world" where
  "setCurrentPage v w = w\<lparr>ui := (ui w)\<lparr>currentPage := v\<rparr>\<rparr>"

definition setTotalPages :: "int \<Rightarrow> 'srv world \<Rightarrow> 'srv world" where
  "setTotalPages v w = w\<lparr>ui := (ui w)\<lparr>totalPages := v\<rparr>\<rparr>"

definition setExportLoading :: "bool \<Rightarrow> 'srv world \<Rightarrow> 'srv world" where
  "setExportLoading v w = w\<lparr>ui := (ui w)\<lparr>exportLoading := v\<rparr>\<rparr>"

definition setStatsLoading :: "bool \<Rightarrow> 'srv world \<Rightarrow> 'srv world" where
  "setStatsLoading v w = w\<lparr>ui := (ui w)\<lparr>statsLoading := v\<rparr>\<rparr>"

definition setSelectedOrders :: "string list \<Rightarrow> 'srv world \<Rightarrow> 'srv world" where
  "setSelectedOrders v w = w\<lparr>ui := (ui w)\<lparr>selectedOrders := v\<rparr>\<rparr>"

definition setBulkActionLoading :: "bool \<Rightarrow> 'srv world \<Rightarrow> 'srv world" where
  "setBulkActionLoading v w = w\<lparr>ui := (ui w)\<lparr>bulkActionLoading := v\<rparr>\<rparr>"

definition setDateRange :: "date option \<times> date option \<Rightarrow> 'srv world \<Rightarrow> 'srv world" where
  "setDateRange v w = w\<lparr>ui := (ui w)\<lparr>startDate := fst v, endDate := snd v\<rparr>\<rparr>"

definition setFilterStatus :: "string \<Rightarrow> 'srv world \<Rightarrow> 'srv world" where
  "setFilterStatus v w = w\<lparr>ui := (ui w)\<lparr>filterStatus := v\<rparr>\<rparr>"

definition setSearchTerm :: "string \<Rightarrow> 'srv world \<Rightarrow> 'srv world" where
  "setSearchTerm v w = w\<lparr>ui := (ui w)\<lparr>searchTerm := v\<rparr>\<rparr>"

definition setSortField :: "string \<Rightarrow> 'srv world \<Rightarrow> 'srv world" where
  "setSortField v w = w\<lparr>ui := (ui w)\<lparr>sortField := v\<rparr>\<rparr>"

definition setSortOrder :: "string \<Rightarrow> 'srv world \<Rightarrow> 'srv world" where
  "setSortOrder v w = w\<lparr>ui := (ui w)\<lparr>sortOrder := v\<rparr>\<rparr>"

subsection \<open>Exceptions: \<open>try\<close> / \<open>catch\<close> / \<open>finally\<close>\<close>

text \<open>
  A block of statements maps a world to a completion and the world it leaves:
  \<open>None\<close> when the block ran to its end, \<open>Some err\<close> when it threw \<open>err\<close>.
  The changes made before a \<open>throw\<close> stay. A \<open>finally\<close> block runs on every
  path; a completion of its own replaces the pending one only when it throws.
\<close>

type_synonym 'w block = "'w \<Rightarrow> exn option \<times> 'w"

definition try_catch_finally ::
  "('w \<Rightarrow> 'e option \<times> 'w) \<Rightarrow> ('e \<Rightarrow> 'w \<Rightarrow> 'e option \<times> 'w) \<Rightarrow>
   ('w \<Rightarrow> 'e option \<times> 'w) \<Rightarrow> 'w \<Rightarrow> 'e option \<times> 'w" where
  "try_catch_finally body handler fin w =
     (case body w of
        (None, w1) \<Rightarrow> fin w1
      | (Some err, w1) \<Rightarrow>
          (case handler err w1 of
             (None, w2) \<Rightarrow> fin w2
           | (Some err', w2) \<Rightarrow>
               (case fin w2 of
                  (None, w3) \<Rightarrow> (Some err', w3)
                | (Some err'', w3) \<Rightarrow> (Some err'', w3))))"

text \<open>\<open>await p; rest\<close>: a rejected promise throws at the \<open>await\<close>.\<close>

definition await_then :: "exn option \<times> 'w \<Rightarrow> 'w block \<Rightarrow> exn option \<times> 'w" where
  "await_then r rest = (case r of (None, w1) \<Rightarrow> rest w1 | (Some err, w1) \<Rightarrow> (Some err, w1))"

section \<open>The API loaders\<close>

text \<open>
  A handler is a closure of one render: it reads the state cells as they were at that
  render (the argument \<open>r\<close>) and writes through the setters into the world. A handler
  started by a user event is called with \<open>r = ui w\<close>.
\<close>

text \<open>The object spread \<open>...(d && { key: d.toISOString() })\<close>.\<close>

definition spread_date :: "string \<Rightarrow> date option \<Rightarrow> params" where
  "spread_date key d = (case d of None \<Rightarrow> [] | Some t \<Rightarrow> [(key, JStr (toISOString t))])"

text \<open>The object spread \<open>...(s && { key: s })\<close> for a string \<open>s\<close>.\<close>

definition spread_string :: "string \<Rightarrow> string \<Rightarrow> params" where
  "spread_string key s = (if s = [] then [] else [(key, JStr s)])"

definition loadOrders_params :: "state \<Rightarrow> int \<Rightarrow> params" where
  "loadOrders_params r page =
     [(''page'', JNum page),
      (''limit'', JNum ITEMS_PER_PAGE),
      (''status'', JStr (filterStatus r)),
      (''search'', JStr (searchTerm r)),
      (''sortField'', JStr (sortField r)),
      (''sortOrder'', JStr (sortOrder r))]
     @ spread_date ''startDate'' (startDate r)
     @ spread_date ''endDate'' (endDate r)"

text \<open>\<open>Math.ceil(total / ITEMS_PER_PAGE)\<close> for an integer total \<open>n\<close>.\<close>

definition page_count :: "int \<Rightarrow> int" where
  "page_count n = - ((- n) div ITEMS_PER_PAGE)"

text \<open>
  \<open>loadOrders\<close> up to its \<open>await\<close>: the flags are set and the request is sent.
\<close>

definition loadOrders_begin :: "state \<Rightarrow> int \<Rightarrow> 'srv world \<Rightarrow> 'srv world" where
  "loadOrders_begin r page w =
     log_call (GetAllOrders (loadOrders_params r page)) (setError None (setLoading True w))"

text \<open>The rest of the \<open>try\<close> block, once the request has settled with \<open>result\<close>.\<close>

definition loadOrders_try ::
  "int \<Rightarrow> exn + orders_response option \<Rightarrow> 'srv world block" where
  "loadOrders_try page result w =
     (case result of
        Inl err \<Rightarrow> (Some err, w)
      | Inr None \<Rightarrow> (Some (Error ''Invalid response format''), w)
      | Inr (Some response) \<Rightarrow>
          (case resp_orders response of
             None \<Rightarrow> (Some (Error ''Invalid response format''), w)
           | Some os \<Rightarrow>
               (None,
                setError None
                  (setCurrentPage page
                    (setTotalPages (page_count (resp_total response))
                      (setOrders os w))))))"

definition loadOrders_catch :: "exn \<Rightarrow> 'srv world block" where
  "loadOrders_catch err w =
     (None,
      setOrders []
        (toast_error ''Failed to load orders''
          (setError (Some (js_or (message err) ''Failed to load orders'')) w)))"

definition loadOrders_finally :: "'srv world block" where
  "loadOrders_finally w = (None, setLoading False w)"

definition loadOrders_end ::
  "int \<Rightarrow> exn + orders_response option \<Rightarrow> 'srv world block" where
  "loadOrders_end page result =
     try_catch_finally (loadOrders_try page result) loadOrders_catch loadOrders_finally"

definition loadOrders :: "'srv api \<Rightarrow> state \<Rightarrow> int \<Rightarrow> 'srv world block" where
  "loadOrders a r page w =
     (let w1 = loadOrders_begin r page w
      in loadOrders_end page (getAllOrders a (server w1) (loadOrders_params r page)) w1)"

text \<open>
  The Orders Service request of \<open>loadOrders\<close> fails when the call throws or when the
  response is \<open>null\<close> or has no \<open>orders\<close> field.
\<close>

definition orders_request_failed :: "exn + orders_response option \<Rightarrow> bool" where
  "orders_request_failed result =
     (case result of
        Inl err \<Rightarrow> True
      | Inr None \<Rightarrow> True
      | Inr (Some response) \<Rightarrow> resp_orders response = None)"


subsection \<open>\<open>loadOrderStats\<close>\<close>

definition loadOrderStats_params :: "state \<Rightarrow> params" where
  "loadOrderStats_params r =
     spread_date ''startDate'' (startDate r) @ spread_date ''endDate'' (endDate r)"

definition loadOrderStats_begin :: "state \<Rightarrow> 'srv world \<Rightarrow> 'srv world" where
  "loadOrderStats_begin r w =
     log_call (GetOrderStats (loadOrderStats_params r)) (setError None (setStatsLoading True w))"

text \<open>\<open>x || 0\<close> for a field that is a number or absent, \<open>x || {}\<close> and the
  \<open>Array.isArray\<close> test for a field that is a table or absent.\<close>

definition or_zero :: "'a::zero option \<Rightarrow> 'a" where
  "or_zero v = (case v of None \<Rightarrow> 0 | Some n \<Rightarrow> n)"

definition or_empty :: "'a list option \<Rightarrow> 'a list" where
  "or_empty v = (case v of None \<Rightarrow> [] | Some xs \<Rightarrow> xs)"

definition loadOrderStats_try :: "exn + stats_response option \<Rightarrow> 'srv world block" where
  "loadOrderStats_try result w =
     (case result of
        Inl err \<Rightarrow> (Some err, w)
      | Inr None \<Rightarrow> (Some (Error ''Invalid response format from stats API''), w)
      | Inr (Some response) \<Rightarrow>
          (None,
           setOrderStats
             (Some \<lparr>totalOrders = or_zero (resp_totalOrders response),
                    totalRevenue = or_zero (resp_totalRevenue response),
                    averageOrderValue = or_zero (resp_averageOrderValue response),
                    statusBreakdown = or_empty (resp_statusBreakdown response),
                    dailyStats = or_empty (resp_dailyStats response)\<rparr>) w))"

text \<open>The \<open>catch\<close> block reads \<open>orders.length\<close> of the render the closure belongs to.\<close>

definition stats_errorMessage :: "exn \<Rightarrow> string" where
  "stats_errorMessage err =
     js_or (response_data_error err) (js_or (message err) ''Failed to load order statistics'')"

definition loadOrderStats_catch :: "state \<Rightarrow> exn \<Rightarrow> 'srv world block" where
  "loadOrderStats_catch r err w =
     (let errorMessage = stats_errorMessage err
      in (None,
          setOrderStats
            (Some \<lparr>totalOrders = int (length (orders r)),
                   totalRevenue = 0,
                   averageOrderValue = 0,
                   statusBreakdown = [],
                   dailyStats = []\<rparr>)
            (toast_error errorMessage (setError (Some errorMessage) w))))"

definition loadOrderStats_finally :: "'srv world block" where
  "loadOrderStats_finally w = (None, setStatsLoading False w)"

definition loadOrderStats_end ::
  "state \<Rightarrow> exn + stats_response option \<Rightarrow> 'srv world block" where
  "loadOrderStats_end r result =
     try_catch_finally (loadOrderStats_try result) (loadOrderStats_catch r)
       loadOrderStats_finally"

definition loadOrderStats :: "'srv api \<Rightarrow> state \<Rightarrow> 'srv world block" where
  "loadOrderStats a r w =
     (let w1 = loadOrderStats_begin r w
      in loadOrderStats_end r (getOrderStats a (server w1) (loadOrderStats_params r)) w1)"

definition stats_request_failed :: "exn + stats_response option \<Rightarrow> bool" where
  "stats_request_failed result =
     (case result of Inl err \<Rightarrow> True | Inr None \<Rightarrow> True | Inr (Some response) \<Rightarrow> False)"

subsection \<open>The effect on the filter cells\<close>

text \<open>
  \<open>useEffect\<close> runs after a render whose dependency list differs from the previous
  render's. It starts \<open>loadOrders(1)\<close> and \<open>loadOrderStats()\<close> without awaiting
  either: both requests are sent, then the two responses are handled in the order they
  arrive, which \<open>orders_first\<close> fixes. A rejection of either promise would go nowhere.
  The dependencies are compared with \<open>Object.is\<close>: strings by value, dates by
  identity.
\<close>

definition deps ::
  "state \<Rightarrow> nat option \<times> nat option \<times> string \<times> string \<times> string \<times> string" where
  "deps r =
     (map_option date_ref (startDate r), map_option date_ref (endDate r),
      filterStatus r, searchTerm r, sortField r, sortOrder r)"

definition filters_effect :: "'srv api \<Rightarrow> bool \<Rightarrow> state \<Rightarrow> 'srv world \<Rightarrow> 'srv world" where
  "filters_effect a orders_first r w =
     (let w1 = loadOrders_begin r 1 w;
          result1 = getAllOrders a (server w1) (loadOrders_params r 1);
          w2 = loadOrderStats_begin r w1;
          result2 = getOrderStats a (server w2) (loadOrderStats_params r)
      in if orders_first
         then snd (loadOrderStats_end r result2 (snd (loadOrders_end 1 result1 w2)))
         else snd (loadOrders_end 1 result1 (snd (loadOrderStats_end r result2 w2))))"

definition rerender :: "'srv api \<Rightarrow> bool \<Rightarrow> state \<Rightarrow> 'srv world \<Rightarrow> 'srv world" where
  "rerender a orders_first previous w =
     (if deps (ui w) \<noteq> deps previous then filters_effect a orders_first (ui w) w else w)"

text \<open>
  The controls that change one filter field: the search box, the date picker, the
  status select, the sort select (its value is split into field and order) and a
  sortable column header (it sets the field and flips the order). The Reset control,
  which sets all the filter fields at once and starts loads of its own, is
  \<open>resetFilters\<close> below.
\<close>

datatype filter_change =
  SearchChange string
| DateRangeChange "date option" "date option"
| StatusChange string
| SortSelect string string
| SortHeader string

fun apply_change :: "filter_change \<Rightarrow> state \<Rightarrow> 'srv world \<Rightarrow> 'srv world" where
  "apply_change (SearchChange v) r w = setSearchTerm v w"
| "apply_change (DateRangeChange s e) r w = setCurrentPage 1 (setDateRange (s, e) w)"
| "apply_change (StatusChange v) r w = setCurrentPage 1 (setFilterStatus v w)"
| "apply_change (SortSelect field ord) r w = setSortOrder ord (setSortField field w)"
| "apply_change (SortHeader field) r w =
     setSortOrder (if sortOrder r = ''asc'' then ''desc'' else ''asc'') (setSortField field w)"

definition change_filter ::
  "'srv api \<Rightarrow> bool \<Rightarrow> filter_change \<Rightarrow> 'srv world \<Rightarrow> 'srv world" where
  "change_filter a orders_first c w = rerender a orders_first (ui w) (apply_change c (ui w) w)"

section \<open>Status, bulk and export handlers\<close>

definition handleStatusUpdate_try ::
  "'srv api \<Rightarrow> state \<Rightarrow> string \<Rightarrow> string \<Rightarrow> 'srv world block" where
  "handleStatusUpdate_try a r orderId newStatus w =
     (let w1 = log_call (UpdateOrderStatus orderId newStatus)
                 (setUpdatingStatus (Some orderId) w)
      in case updateOrderStatus a (server w1) orderId newStatus of
           Inl err \<Rightarrow> (Some err, w1)
         | Inr srv' \<Rightarrow>
             await_then
               (loadOrders a r (currentPage r)
                 (toast_success ''Order status updated'' (w1\<lparr>server := srv'\<rparr>)))
               (loadOrderStats a r))"

definition handleStatusUpdate_catch :: "exn \<Rightarrow> 'srv world block" where
  "handleStatusUpdate_catch err w =
     (None,
      toast_error (js_or (response_data_error err) ''Failed to update order status'') w)"

definition handleStatusUpdate ::
  "'srv api \<Rightarrow> state \<Rightarrow> string \<Rightarrow> string \<Rightarrow> 'srv world block" where
  "handleStatusUpdate a r orderId newStatus =
     try_catch_finally (handleStatusUpdate_try a r orderId newStatus)
       handleStatusUpdate_catch (\<lambda>w. (None, setUpdatingStatus None w))"

text \<open>The \<open>for ... of\<close> loop of the bulk update: one awaited request per id.\<close>

fun update_each :: "'srv api \<Rightarrow> string \<Rightarrow> string list \<Rightarrow> 'srv world block" where
  "update_each a newStatus [] w = (None, w)"
| "update_each a newStatus (orderId # rest) w =
     (let w1 = log_call (UpdateOrderStatus orderId newStatus) w
      in case updateOrderStatus a (server w1) orderId newStatus of
           Inl err \<Rightarrow> (Some err, w1)
         | Inr srv' \<Rightarrow> update_each a newStatus rest (w1\<lparr>server := srv'\<rparr>))"

text \<open>The decimal digits of a number, for the template string of the success toast.\<close>

definition digit_char :: "nat \<Rightarrow> char" where
  "digit_char d = char_of (48 + d)"

function string_of_nat :: "nat \<Rightarrow> string" where
  "string_of_nat n =
     (if n < 10 then [digit_char n] else string_of_nat (n div 10) @ [digit_char (n mod 10)])"
  by pat_completeness auto
termination
  by (relation "measure (\<lambda>n. n)") auto

declare string_of_nat.simps [simp del]

definition handleBulkStatusUpdate_try ::
  "'srv api \<Rightarrow> state \<Rightarrow> string \<Rightarrow> 'srv world block" where
  "handleBulkStatusUpdate_try a r newStatus w =
     (let orderIds = selectedOrders r
      in await_then (update_each a newStatus orderIds (setBulkActionLoading True w))
           (\<lambda>w2. await_then
              (loadOrders a r (currentPage r)
                (setSelectedOrders []
                  (toast_success
                    (string_of_nat (length orderIds) @ '' orders updated to '' @ newStatus)
                    w2)))
              (loadOrderStats a r)))"

definition handleBulkStatusUpdate :: "'srv api \<Rightarrow> state \<Rightarrow> string \<Rightarrow> 'srv world block" where
  "handleBulkStatusUpdate a r newStatus w =
     (if length (selectedOrders r) = 0 then (None, toast_error ''No orders selected'' w)
      else try_catch_finally (handleBulkStatusUpdate_try a r newStatus)
             (\<lambda>err w'. (None, toast_error ''Failed to update selected orders'' w'))
             (\<lambda>w'. (None, setBulkActionLoading False w')) w)"

definition handleExportOrders_params :: "state \<Rightarrow> params" where
  "handleExportOrders_params r =
     spread_date ''startDate'' (startDate r)
     @ spread_date ''endDate'' (endDate r)
     @ spread_string ''status'' (filterStatus r)
     @ spread_string ''search'' (searchTerm r)"

text \<open>
  \<open>today\<close> is \<open>new Date().toISOString().split('T')[0]\<close>. A response that is
  \<open>null\<close> or the empty string is falsy.
\<close>

definition handleExportOrders_try :: "'srv api \<Rightarrow> string \<Rightarrow> state \<Rightarrow> 'srv world block" where
  "handleExportOrders_try a today r w =
     (let params = handleExportOrders_params r;
          w1 = log_call (ExportOrders params) (setError None (setExportLoading True w))
      in case exportOrders a (server w1) params of
           Inl err \<Rightarrow> (Some err, w1)
         | Inr None \<Rightarrow> (Some (Error ''No response received from export API''), w1)
         | Inr (Some response) \<Rightarrow>
             (if response = []
              then (Some (Error ''No response received from export API''), w1)
              else (None,
                    toast_success ''Orders exported''
                      (w1\<lparr>downloads :=
                            downloads w1 @ [(''orders-'' @ today @ ''.csv'', response)]\<rparr>))))"

definition export_errorMessage :: "exn \<Rightarrow> string" where
  "export_errorMessage err =
     js_or (response_data_error err) (js_or (message err) ''Failed to export orders'')"

definition handleExportOrders_catch :: "exn \<Rightarrow> 'srv world block" where
  "handleExportOrders_catch err w =
     (let errorMessage = export_errorMessage err
      in (None, toast_error errorMessage (setError (Some errorMessage) w)))"

definition handleExportOrders :: "'srv api \<Rightarrow> string \<Rightarrow> state \<Rightarrow> 'srv world block" where
  "handleExportOrders a today r =
     try_catch_finally (handleExportOrders_try a today r) handleExportOrders_catch
       (\<lambda>w. (None, setExportLoading False w))"

section \<open>Selection\<close>

text \<open>\<open>Set.prototype.add\<close>, \<open>delete\<close>, and \<open>new Set(array)\<close> on insertion-ordered lists.\<close>

definition set_add :: "string \<Rightarrow> string list \<Rightarrow> string list" where
  "set_add x xs = (if x \<in> set xs then xs else xs @ [x])"

definition set_delete :: "string \<Rightarrow> string list \<Rightarrow> string list" where
  "set_delete x xs = filter (\<lambda>y. y \<noteq> x) xs"

definition set_of_array :: "string list \<Rightarrow> string list" where
  "set_of_array xs = fold set_add xs []"

definition toggleOrderSelection :: "string \<Rightarrow> state \<Rightarrow> 'srv world \<Rightarrow> 'srv world" where
  "toggleOrderSelection orderId r w =
     (let newSelected = selectedOrders r
      in setSelectedOrders
           (if orderId \<in> set newSelected then set_delete orderId newSelected
            else set_add orderId newSelected) w)"

definition toggleAllOrders :: "state \<Rightarrow> 'srv world \<Rightarrow> 'srv world" where
  "toggleAllOrders r w =
     (if length (selectedOrders r) = length (orders r) then setSelectedOrders [] w
      else setSelectedOrders (set_of_array (map oid (orders r))) w)"

section \<open>Reset and clear\<close>

text \<open>The Clear Selection button.\<close>

definition clearSelection :: "'srv world \<Rightarrow> 'srv world" where
  "clearSelection w = setSelectedOrders [] w"

text \<open>
  A request that has been sent and not yet answered, with what its handler needs once
  the answer is there: the page of a \<open>loadOrders\<close> call, the render of a
  \<open>loadOrderStats\<close> call.
\<close>

datatype pending =
  OrdersResponse int "exn + orders_response option"
| StatsResponse state "exn + stats_response option"

fun settle :: "pending \<Rightarrow> 'srv world \<Rightarrow> 'srv world" where
  "settle (OrdersResponse page result) w = snd (loadOrders_end page result w)"
| "settle (StatsResponse r result) w = snd (loadOrderStats_end r result w)"

text \<open>An answer of a \<open>loadOrders(1)\<close> call leaves page 1 as the current page.\<close>

fun for_page_one :: "pending \<Rightarrow> bool" where
  "for_page_one (OrdersResponse page result) = (page = 1)"
| "for_page_one (StatsResponse r result) = True"

text \<open>
  The order in which pending answers arrive is the network's. A list of numbers picks
  it: each number chooses one of the answers still pending, and what is left when the
  numbers run out arrives in the order sent.
\<close>

fun arrival_order :: "nat list \<Rightarrow> 'a list \<Rightarrow> 'a list" where
  "arrival_order ns [] = []"
| "arrival_order [] xs = xs"
| "arrival_order (n # ns) xs =
     (let i = n mod length xs
      in xs ! i # arrival_order ns (take i xs @ drop (Suc i) xs))"

text \<open>
  \<open>resetFilters\<close> sets the filter cells to their defaults, the page to 1 and the
  selection to empty, and then calls \<open>loadOrders(1)\<close> and \<open>loadOrderStats()\<close>
  itself. These two are the closures of the render the button was clicked in, so their
  requests carry the filters of before the reset. The render that follows runs the
  effect when a dependency changed, which sends both requests again with the new
  filters. None of the calls is awaited; the answers are handled as they arrive.
\<close>

definition resetFilters :: "'srv api \<Rightarrow> nat list \<Rightarrow> state \<Rightarrow> 'srv world \<Rightarrow> 'srv world" where
  "resetFilters a arrival r w =
     (let w1 = setSelectedOrders []
                 (setCurrentPage 1
                   (setSortOrder ''desc''
                     (setSortField ''createdAt''
                       (setSearchTerm []
                         (setFilterStatus []
                           (setDateRange (None, None) w))))));
          w2 = loadOrders_begin r 1 w1;
          p1 = OrdersResponse 1 (getAllOrders a (server w2) (loadOrders_params r 1));
          w3 = loadOrderStats_begin r w2;
          p2 = StatsResponse r (getOrderStats a (server w3) (loadOrderStats_params r));
          r' = ui w3
      in if deps r' \<noteq> deps r
         then (let w4 = loadOrders_begin r' 1 w3;
                   p3 = OrdersResponse 1 (getAllOrders a (server w4) (loadOrders_params r' 1));
                   w5 = loadOrderStats_begin r' w4;
                   p4 = StatsResponse r' (getOrderStats a (server w5) (loadOrderStats_params r'))
               in fold settle (arrival_order arrival [p1, p2, p3, p4]) w5)
         else fold settle (arrival_order arrival [p1, p2]) w3)"

section \<open>Rejections that are not error objects\<close>

text \<open>
  A promise can reject with any value. The handlers above take the rejections of the
  API to be error objects; \<open>loadOrders_any\<close> is \<open>loadOrders\<close> for a list request
  that may also reject with \<open>null\<close> or \<open>undefined\<close>. Its \<open>catch\<close> block starts
  by reading \<open>err.message\<close>, which on \<open>null\<close> or \<open>undefined\<close> throws a
  \<open>TypeError\<close> before any setter is called; the \<open>finally\<close> block still runs.
\<close>

datatype rejection = Nullish | ErrorObject exn

definition nullish_TypeError :: exn where
  "nullish_TypeError = Error ''Cannot read properties of undefined''"

definition as_rejection :: "exn option \<times> 'w \<Rightarrow> rejection option \<times> 'w" where
  "as_rejection p = (map_option ErrorObject (fst p), snd p)"

definition loadOrders_try_any ::
  "int \<Rightarrow> rejection + orders_response option \<Rightarrow> 'srv world \<Rightarrow> rejection option \<times> 'srv world" where
  "loadOrders_try_any page result w =
     (case result of
        Inl Nullish \<Rightarrow> (Some Nullish, w)
      | Inl (ErrorObject err) \<Rightarrow> as_rejection (loadOrders_try page (Inl err) w)
      | Inr response \<Rightarrow> as_rejection (loadOrders_try page (Inr response) w))"

definition loadOrders_catch_any ::
  "rejection \<Rightarrow> 'srv world \<Rightarrow> rejection option \<times> 'srv world" where
  "loadOrders_catch_any thrown w =
     (case thrown of
        Nullish \<Rightarrow> (Some (ErrorObject nullish_TypeError), w)
      | ErrorObject err \<Rightarrow> as_rejection (loadOrders_catch err w))"

definition loadOrders_any ::
  "('srv \<Rightarrow> params \<Rightarrow> rejection + orders_response option) \<Rightarrow> state \<Rightarrow> int \<Rightarrow>
   'srv world \<Rightarrow> rejection option \<times> 'srv world" where
  "loadOrders_any request r page w =
     (let w1 = loadOrders_begin r page w
      in try_catch_finally
           (loadOrders_try_any page (request (server w1) (loadOrders_params r page)))
           loadOrders_catch_any
           (\<lambda>w'. as_rejection (loadOrders_finally w')) w1)"

section \<open>A sample server\<close>

text \<open>
  A server for running the handlers on concrete inputs: it stores the status of every
  order, answers the list request with \<open>list_result\<close> of the parameters, the stats
  and export requests with fixed results, and rejects a status update of the ids in
  \<open>rejected\<close>.
\<close>

definition sample_api ::
  "(params \<Rightarrow> exn + orders_response option) \<Rightarrow> (exn + stats_response option) \<Rightarrow>
   string list \<Rightarrow> (exn + string option) \<Rightarrow> (string \<Rightarrow> string option) api" where
  "sample_api list_result stats_result rejected export_result =
     \<lparr>getAllOrders = (\<lambda>srv p. list_result p),
      getOrderStats = (\<lambda>srv p. stats_result),
      updateOrderStatus =
        (\<lambda>srv orderId newStatus.
           if orderId \<in> set rejected then Inl (Error ''Request failed'')
           else Inr (srv(orderId \<mapsto> newStatus))),
      exportOrders = (\<lambda>srv p. export_result)\<rparr>"

definition sample_world :: "state \<Rightarrow> (string \<Rightarrow> string option) \<Rightarrow> (string \<Rightarrow> string option) world" where
  "sample_world s srv = \<lparr>ui = s, server = srv, calls = [], toasts = [], downloads = []\<rparr>"

definition order_of :: "string \<Rightarrow> string \<Rightarrow> order_summary" where
  "order_of i st = \<lparr>oid = i, status = st, totalAmount = 100\<rparr>"

text \<open>Sample data: a query with twelve matching orders, ten on page 1 and two on page 2.\<close>

definition page_one :: "order_summary list" where
  "page_one =
     map (\<lambda>i. order_of i ''pending'')
       [''o01'', ''o02'', ''o03'', ''o04'', ''o05'', ''o06'', ''o07'', ''o08'', ''o09'', ''o10'']"

definition page_two :: "order_summary list" where
  "page_two = map (\<lambda>i. order_of i ''pending'') [''o11'', ''o12'']"

definition twelve_orders :: "params \<Rightarrow> exn + orders_response option" where
  "twelve_orders p =
     (if map_of p ''page'' = Some (JNum 2)
      then Inr (Some \<lparr>resp_orders = Some page_two, resp_total = 12\<rparr>)
      else Inr (Some \<lparr>resp_orders = Some page_one, resp_total = 12\<rparr>))"

definition no_orders :: "params \<Rightarrow> exn + orders_response option" where
  "no_orders p = Inr (Some \<lparr>resp_orders = Some [], resp_total = 0\<rparr>)"

definition malformed_orders :: "params \<Rightarrow> exn + orders_response option" where
  "malformed_orders p = Inr (Some \<lparr>resp_orders = None, resp_total = 0\<rparr>)"

definition network_error :: exn where
  "network_error = Error ''Network Error''"

definition sample_stats :: "exn + stats_response option" where
  "sample_stats =
     Inr (Some \<lparr>resp_totalOrders = Some 12, resp_totalRevenue = Some 1200,
                resp_averageOrderValue = Some 100,
                resp_statusBreakdown = Some [(''pending'', 12)],
                resp_dailyStats = Some []\<rparr>)"

text \<open>A server on which every order is pending.\<close>

definition all_pending :: "string \<Rightarrow> string option" where
  "all_pending = (\<lambda>i. Some ''pending'')"

text \<open>The screen showing page 1 of the twelve orders, nothing selected.\<close>

definition showing_page_one :: "(string \<Rightarrow> string option) world" where
  "showing_page_one =
     sample_world
       (initial_state\<lparr>orders := page_one, loading := False, totalPages := 2\<rparr>)
       all_pending"

text \<open>The screen with a status filter, a search text and a date range set, on page 2.\<close>

definition filtered_view :: "(string \<Rightarrow> string option) world" where
  "filtered_view =
     sample_world
       (initial_state\<lparr>orders := page_two, loading := False, totalPages := 2,
          currentPage := 2, filterStatus := ''pending'', searchTerm := ''rice'',
          startDate := Some \<lparr>date_ref = 1, date_iso = ''2024-01-01T00:00:00.000Z''\<rparr>,
          endDate := Some \<lparr>date_ref = 2, date_iso = ''2024-01-31T00:00:00.000Z''\<rparr>,
          sortField := ''totalAmount'', sortOrder := ''asc''\<rparr>)
       all_pending"

text \<open>The invariant of the spec's data model: every selected id is the id of a loaded order.\<close>

definition selection_in_page :: "state \<Rightarrow> bool" where
  "selection_in_page s = (set (selectedOrders s) \<subseteq> set (map oid (orders s)))"

text \<open>
  The server after the status updates of a list of ids have been applied one after the
  other; \<open>None\<close> when one of them is rejected.
\<close>

fun apply_all :: "'srv api \<Rightarrow> string \<Rightarrow> string list \<Rightarrow> 'srv \<Rightarrow> 'srv option" where
  "apply_all a newStatus [] srv = Some srv"
| "apply_all a newStatus (orderId # rest) srv =
     (case updateOrderStatus a srv orderId newStatus of
        Inl err \<Rightarrow> None
      | Inr srv' \<Rightarrow> apply_all a newStatus rest srv')"

text \<open>Page 1 on the screen with its first three orders selected, in that order.\<close>

definition three_selected :: "(string \<Rightarrow> string option) world" where
  "three_selected =
     sample_world
       (initial_state\<lparr>orders := page_one, loading := False, totalPages := 2,
          selectedOrders := [''o01'', ''o02'', ''o03'']\<rparr>)
       all_pending"

text \<open>A server that rejects every status update of order \<open>o02\<close>.\<close>

definition rejecting_o02 :: "(string \<Rightarrow> string option) api" where
  "rejecting_o02 = sample_api twelve_orders sample_stats [''o02''] (Inr (Some ''csv''))"

text \<open>A server that accepts every request.\<close>

definition accepting :: "(string \<Rightarrow> string option) api" where
  "accepting = sample_api twelve_orders sample_stats [] (Inr (Some ''csv''))"

text \<open>The handlers of the date picker and of the status select call
  \<open>setCurrentPage(1)\<close> themselves; the other three controls do not.\<close>

fun calls_setCurrentPage :: "filter_change \<Rightarrow> bool" where
  "calls_setCurrentPage (DateRangeChange s e) = True"
| "calls_setCurrentPage (StatusChange v) = True"
| "calls_setCurrentPage c = False"

text \<open>The screen showing page 2 of the twelve orders.\<close>

definition showing_page_two :: "(string \<Rightarrow> string option) world" where
  "showing_page_two =
     sample_world
       (initial_state\<lparr>orders := page_two, loading := False, totalPages := 2,
          currentPage := 2\<rparr>)
       all_pending"

text \<open>A server whose list request fails with a network error.\<close>

definition list_down :: "(string \<Rightarrow> string option) api" where
  "list_down = sample_api (\<lambda>p. Inl network_error) sample_stats [] (Inr (Some ''csv''))"

text \<open>
  The export request fails when the call throws or when the response is falsy.
\<close>

definition export_request_failed :: "exn + string option \<Rightarrow> bool" where
  "export_request_failed result =
     (case result of Inl err \<Rightarrow> True | Inr None \<Rightarrow> True | Inr (Some response) \<Rightarrow> response = [])"

text \<open>A server on which every request fails.\<close>

definition all_down :: "(string \<Rightarrow> string option) api" where
  "all_down =
     \<lparr>getAllOrders = (\<lambda>srv p. Inl network_error),
      getOrderStats = (\<lambda>srv p. Inl network_error),
      updateOrderStatus = (\<lambda>srv orderId newStatus. Inl network_error),
      exportOrders = (\<lambda>srv p. Inl network_error)\<rparr>"

text \<open>A server whose stats request fails with a network error.\<close>

definition stats_down :: "(string \<Rightarrow> string option) api" where
  "stats_down = sample_api twelve_orders (Inl network_error) [] (Inr (Some ''csv''))"

section \<open>Basic facts\<close>

lemmas setter_defs =
  setOrders_def setLoading_def setError_def setOrderStats_def setUpdatingStatus_def
  setCurrentPage_def setTotalPages_def setExportLoading_def setStatsLoading_def
  setSelectedOrders_def setBulkActionLoading_def log_call_def toast_error_def
  toast_success_def
  setDateRange_def setFilterStatus_def setSearchTerm_def setSortField_def setSortOrder_def

lemmas loadOrders_defs =
  loadOrders_def loadOrders_begin_def loadOrders_end_def loadOrders_try_def
  loadOrders_catch_def loadOrders_finally_def try_catch_finally_def

lemmas loadOrderStats_defs =
  loadOrderStats_def loadOrderStats_begin_def loadOrderStats_end_def loadOrderStats_try_def
  loadOrderStats_catch_def loadOrderStats_finally_def try_catch_finally_def

lemma await_then_returned: "fst p = None \<Longrightarrow> await_then p rest = rest (snd p)"
  by (cases p) (simp add: await_then_def)

lemma await_then_thrown: "fst p = Some err \<Longrightarrow> await_then p rest = p"
  by (cases p) (simp add: await_then_def)

subsection \<open>loadOrders\<close>

lemma loadOrders_returns: "fst (loadOrders a r page w) = None"
  by (simp add: loadOrders_defs Let_def split: sum.splits option.splits)

lemma loadOrders_calls:
  "calls (snd (loadOrders a r page w)) = calls w @ [GetAllOrders (loadOrders_params r page)]"
  by (simp add: loadOrders_defs setter_defs Let_def split: sum.splits option.splits)

lemma loadOrders_server: "server (snd (loadOrders a r page w)) = server w"
  by (simp add: loadOrders_defs setter_defs Let_def split: sum.splits option.splits)

lemma loadOrders_downloads: "downloads (snd (loadOrders a r page w)) = downloads w"
  by (simp add: loadOrders_defs setter_defs Let_def split: sum.splits option.splits)

lemma loadOrders_selectedOrders:
  "selectedOrders (ui (snd (loadOrders a r page w))) = selectedOrders (ui w)"
  by (simp add: loadOrders_defs setter_defs Let_def split: sum.splits option.splits)

lemma loadOrders_orderStats:
  "orderStats (ui (snd (loadOrders a r page w))) = orderStats (ui w)"
  by (simp add: loadOrders_defs setter_defs Let_def split: sum.splits option.splits)

lemma loadOrders_deps: "deps (ui (snd (loadOrders a r page w))) = deps (ui w)"
  by (simp add: loadOrders_defs setter_defs deps_def Let_def split: sum.splits option.splits)

lemma loadOrders_failed:
  assumes "orders_request_failed (getAllOrders a (server w) (loadOrders_params r page))"
  shows "orders (ui (snd (loadOrders a r page w))) = []"
    and "error (ui (snd (loadOrders a r page w))) \<noteq> None"
    and "currentPage (ui (snd (loadOrders a r page w))) = currentPage (ui w)"
    and "totalPages (ui (snd (loadOrders a r page w))) = totalPages (ui w)"
    and "loading (ui (snd (loadOrders a r page w))) = False"
    and "toasts (snd (loadOrders a r page w)) = toasts w @ [ToastError ''Failed to load orders'']"
  using assms
  by (auto simp: loadOrders_defs setter_defs orders_request_failed_def Let_def
      split: sum.splits option.splits)

lemma loadOrders_ui_loaded:
  assumes "getAllOrders a (server w) (loadOrders_params r page) = Inr (Some response)"
    and "resp_orders response = Some os"
  shows "ui (snd (loadOrders a r page w)) =
           (ui w)\<lparr>orders := os, loading := False, error := None,
                  currentPage := page, totalPages := page_count (resp_total response)\<rparr>"
    and "toasts (snd (loadOrders a r page w)) = toasts w"
  using assms
  by (simp_all add: loadOrders_defs setter_defs Let_def)

subsection \<open>loadOrderStats\<close>

lemma loadOrderStats_returns: "fst (loadOrderStats a r w) = None"
  by (simp add: loadOrderStats_defs Let_def split: sum.splits option.splits)

lemma loadOrderStats_calls:
  "calls (snd (loadOrderStats a r w)) = calls w @ [GetOrderStats (loadOrderStats_params r)]"
  by (simp add: loadOrderStats_defs setter_defs Let_def split: sum.splits option.splits)

lemma loadOrderStats_server: "server (snd (loadOrderStats a r w)) = server w"
  by (simp add: loadOrderStats_defs setter_defs Let_def split: sum.splits option.splits)

lemma loadOrderStats_keeps:
  "orders (ui (snd (loadOrderStats a r w))) = orders (ui w)"
  "totalPages (ui (snd (loadOrderStats a r w))) = totalPages (ui w)"
  "currentPage (ui (snd (loadOrderStats a r w))) = currentPage (ui w)"
  "loading (ui (snd (loadOrderStats a r w))) = loading (ui w)"
  "selectedOrders (ui (snd (loadOrderStats a r w))) = selectedOrders (ui w)"
  by (simp_all add: loadOrderStats_defs setter_defs Let_def split: sum.splits option.splits)

lemmas sample_defs =
  sample_api_def sample_world_def order_of_def page_one_def page_two_def twelve_orders_def
  no_orders_def malformed_orders_def network_error_def sample_stats_def all_pending_def
  showing_page_one_def initial_state_def Error_def

section \<open>Failure of the orders request\<close>




section \<open>An empty page against a malformed response\<close>

text \<open>
  Claim C8: when the list request answers \<open>{orders: [], total: 0}\<close>, \<open>loadOrders\<close>
  succeeds: no error is set and no toast is shown, the order list is empty and the
  page count is \<open>Math.ceil(0 / 10) = 0\<close> (the current page is the page asked for).
  A response without the \<open>orders\<close> field gives the error outcome instead: the error
  message \<^verbatim>\<open>Invalid response format\<close> is set, an error toast is shown and the
  list is cleared. The two outcomes differ in the error cell.
\<close>

theorem loadOrders_empty_page_is_not_an_error:
  assumes empty: "getAllOrders a (server w) (loadOrders_params r page) =
                    Inr (Some \<lparr>resp_orders = Some [], resp_total = 0\<rparr>)"
    and malformed: "getAllOrders a' (server w) (loadOrders_params r page) =
                    Inr (Some \<lparr>resp_orders = None, resp_total = n\<rparr>)"
  shows "fst (loadOrders a r page w) = None \<and>
         error (ui (snd (loadOrders a r page w))) = None \<and>
         orders (ui (snd (loadOrders a r page w))) = [] \<and>
         totalPages (ui (snd (loadOrders a r page w))) = 0 \<and>
         currentPage (ui (snd (loadOrders a r page w))) = page \<and>
         toasts (snd (loadOrders a r page w)) = toasts w \<and>
         fst (loadOrders a' r page w) = None \<and>
         error (ui (snd (loadOrders a' r page w))) = Some ''Invalid response format'' \<and>
         orders (ui (snd (loadOrders a' r page w))) = [] \<and>
         toasts (snd (loadOrders a' r page w)) = toasts w @ [ToastError ''Failed to load orders''] \<and>
         ui (snd (loadOrders a r page w)) \<noteq> ui (snd (loadOrders a' r page w))"
proof -
  have ok: "ui (snd (loadOrders a r page w)) =
      (ui w)\<lparr>orders := [], loading := False, error := None,
             currentPage := page, totalPages := 0\<rparr>"
    using loadOrders_ui_loaded(1) [OF empty] by (simp add: page_count_def)
  have ok_toasts: "toasts (snd (loadOrders a r page w)) = toasts w"
    using loadOrders_ui_loaded(2) [OF empty] by simp
  have bad_error: "error (ui (snd (loadOrders a' r page w))) = Some ''Invalid response format''"
    using malformed by (simp add: loadOrders_defs setter_defs js_or_def Error_def)
  have bad: "orders_request_failed (getAllOrders a' (server w) (loadOrders_params r page))"
    using malformed by (simp add: orders_request_failed_def)
  have differ: "ui (snd (loadOrders a r page w)) \<noteq> ui (snd (loadOrders a' r page w))"
  proof
    assume "ui (snd (loadOrders a r page w)) = ui (snd (loadOrders a' r page w))"
    then have "error (ui (snd (loadOrders a r page w))) = error (ui (snd (loadOrders a' r page w)))"
      by simp
    with ok bad_error show False by simp
  qed
  from ok ok_toasts bad_error loadOrders_failed [OF bad] differ
    loadOrders_returns [of a r page w] loadOrders_returns [of a' r page w]
  show ?thesis by simp
qed

theorem loadOrders_empty_page_is_not_an_error_witness:
  "error (ui (snd (loadOrders (sample_api no_orders sample_stats [] (Inr (Some ''csv'')))
       (ui showing_page_one) 1 showing_page_one))) = None \<and>
   totalPages (ui (snd (loadOrders (sample_api no_orders sample_stats [] (Inr (Some ''csv'')))
       (ui showing_page_one) 1 showing_page_one))) = 0 \<and>
   error (ui (snd (loadOrders (sample_api malformed_orders sample_stats [] (Inr (Some ''csv'')))
       (ui showing_page_one) 1 showing_page_one))) = Some ''Invalid response format''"
proof -
  let ?a = "sample_api no_orders sample_stats [] (Inr (Some ''csv''))"
  let ?a' = "sample_api malformed_orders sample_stats [] (Inr (Some ''csv''))"
  have empty: "getAllOrders ?a (server showing_page_one) (loadOrders_params (ui showing_page_one) 1)
      = Inr (Some \<lparr>resp_orders = Some [], resp_total = 0\<rparr>)"
    by (simp add: sample_api_def no_orders_def)
  have malformed: "getAllOrders ?a' (server showing_page_one) (loadOrders_params (ui showing_page_one) 1)
      = Inr (Some \<lparr>resp_orders = None, resp_total = 0\<rparr>)"
    by (simp add: sample_api_def malformed_orders_def)
  from loadOrders_empty_page_is_not_an_error [OF empty malformed] show ?thesis by simp
qed

section \<open>The selection set\<close>

lemma set_set_add: "set (set_add x xs) = insert x (set xs)"
  by (auto simp: set_add_def)

lemma set_set_delete: "set (set_delete x xs) = set xs - {x}"
  by (auto simp: set_delete_def)

lemma distinct_set_add: "distinct xs \<Longrightarrow> distinct (set_add x xs)"
  by (simp add: set_add_def)

lemma distinct_set_delete: "distinct xs \<Longrightarrow> distinct (set_delete x xs)"
  by (simp add: set_delete_def)

lemma set_fold_set_add: "set (fold set_add xs acc) = set xs \<union> set acc"
  by (induction xs arbitrary: acc) (auto simp: set_set_add)

lemma set_set_of_array: "set (set_of_array xs) = set xs"
  by (simp add: set_of_array_def set_fold_set_add)

lemma distinct_fold_set_add: "distinct acc \<Longrightarrow> distinct (fold set_add xs acc)"
  by (induction xs arbitrary: acc) (auto simp: distinct_set_add)

lemma distinct_set_of_array: "distinct (set_of_array xs)"
  by (simp add: set_of_array_def distinct_fold_set_add)

lemma toggleOrderSelection_selected:
  "set (selectedOrders (ui (toggleOrderSelection x r w))) =
     (if x \<in> set (selectedOrders r) then set (selectedOrders r) - {x}
      else insert x (set (selectedOrders r)))"
  by (simp add: toggleOrderSelection_def Let_def setSelectedOrders_def set_set_add set_set_delete)

lemma toggleOrderSelection_distinct:
  "distinct (selectedOrders r) \<Longrightarrow> distinct (selectedOrders (ui (toggleOrderSelection x r w)))"
  by (simp add: toggleOrderSelection_def Let_def setSelectedOrders_def distinct_set_add
      distinct_set_delete)

text \<open>
  Toggling twice gives back the same set, not always the same iteration order: an id
  that was removed is added again at the end.
\<close>

lemma toggleOrderSelection_twice_order:
  "selectedOrders (ui (toggleOrderSelection ''o01'' (r\<lparr>selectedOrders := [''o01'', ''o02'']\<rparr>) w))
     = [''o02''] \<and>
   selectedOrders (ui (toggleOrderSelection ''o01'' (r\<lparr>selectedOrders := [''o02'']\<rparr>) w))
     = [''o02'', ''o01'']"
  by (simp add: toggleOrderSelection_def Let_def setSelectedOrders_def set_add_def set_delete_def)

text \<open>
  Claim C10: for every selection set \<open>S\<close> and order id \<open>x\<close>, one
  \<open>toggleOrderSelection(x)\<close> adds \<open>x\<close> when it is not in \<open>S\<close> and removes it
  when it is, and a second one (run by the next render, which reads the new set) gives
  a selection set equal to \<open>S\<close>; no other state cell changes.
\<close>

theorem toggleOrderSelection_involution:
  "set (selectedOrders (ui (toggleOrderSelection x (ui w) w))) =
     (if x \<in> set (selectedOrders (ui w)) then set (selectedOrders (ui w)) - {x}
      else insert x (set (selectedOrders (ui w)))) \<and>
   set (selectedOrders (ui (toggleOrderSelection x (ui (toggleOrderSelection x (ui w) w))
          (toggleOrderSelection x (ui w) w)))) = set (selectedOrders (ui w)) \<and>
   (ui (toggleOrderSelection x (ui (toggleOrderSelection x (ui w) w))
          (toggleOrderSelection x (ui w) w)))\<lparr>selectedOrders := selectedOrders (ui w)\<rparr> = ui w"
proof -
  let ?w1 = "toggleOrderSelection x (ui w) w"
  have once: "set (selectedOrders (ui ?w1)) =
      (if x \<in> set (selectedOrders (ui w)) then set (selectedOrders (ui w)) - {x}
       else insert x (set (selectedOrders (ui w))))"
    by (rule toggleOrderSelection_selected)
  have twice: "set (selectedOrders (ui (toggleOrderSelection x (ui ?w1) ?w1))) =
      set (selectedOrders (ui w))"
    unfolding toggleOrderSelection_selected [of x "ui ?w1" ?w1] once by auto
  have rest: "(ui (toggleOrderSelection x (ui ?w1) ?w1))\<lparr>selectedOrders := selectedOrders (ui w)\<rparr>
      = ui w"
    by (simp add: toggleOrderSelection_def Let_def setSelectedOrders_def)
  from once twice rest show ?thesis by blast
qed

theorem toggleOrderSelection_involution_witness:
  "selectedOrders (ui (toggleOrderSelection ''o03'' (ui showing_page_one) showing_page_one))
     = [''o03''] \<and>
   set (selectedOrders (ui (toggleOrderSelection ''o03''
          (ui (toggleOrderSelection ''o03'' (ui showing_page_one) showing_page_one))
          (toggleOrderSelection ''o03'' (ui showing_page_one) showing_page_one)))) = {}"
proof -
  have none: "selectedOrders (ui showing_page_one) = []"
    by (simp add: showing_page_one_def sample_world_def initial_state_def)
  have one: "selectedOrders (ui (toggleOrderSelection ''o03'' (ui showing_page_one) showing_page_one))
      = [''o03'']"
    by (simp add: toggleOrderSelection_def Let_def setSelectedOrders_def set_add_def none)
  from toggleOrderSelection_involution [of "''o03''" showing_page_one] none one
  show ?thesis by simp
qed

section \<open>The export request\<close>

lemma map_of_spread_date:
  "map_of (spread_date key d) k = (if k = key then map_option (\<lambda>t. JStr (toISOString t)) d else None)"
  by (simp add: spread_date_def split: option.splits)

lemma map_of_spread_string:
  "map_of (spread_string key s) k = (if k = key \<and> s \<noteq> [] then Some (JStr s) else None)"
  by (simp add: spread_string_def)

lemma keys_spread_date: "fst ` set (spread_date key d) \<subseteq> {key}"
  by (cases d) (simp_all add: spread_date_def)

lemma keys_spread_string: "fst ` set (spread_string key s) \<subseteq> {key}"
  by (simp add: spread_string_def)

lemma handleExportOrders_params_keys:
  "fst ` set (handleExportOrders_params r) \<subseteq> {''startDate'', ''endDate'', ''status'', ''search''}"
  using keys_spread_date [of "''startDate''" "startDate r"]
    keys_spread_date [of "''endDate''" "endDate r"]
    keys_spread_string [of "''status''" "filterStatus r"]
    keys_spread_string [of "''search''" "searchTerm r"]
  by (auto simp: handleExportOrders_params_def)

lemma handleExportOrders_params_values:
  "map_of (handleExportOrders_params r) ''startDate'' = map_option (\<lambda>t. JStr (toISOString t)) (startDate r)"
  "map_of (handleExportOrders_params r) ''endDate'' = map_option (\<lambda>t. JStr (toISOString t)) (endDate r)"
  "map_of (handleExportOrders_params r) ''status'' =
     (if filterStatus r = [] then None else Some (JStr (filterStatus r)))"
  "map_of (handleExportOrders_params r) ''search'' =
     (if searchTerm r = [] then None else Some (JStr (searchTerm r)))"
  by (simp_all add: handleExportOrders_params_def map_add_def map_of_spread_date
      map_of_spread_string split: option.splits)

lemmas handleExportOrders_defs =
  handleExportOrders_def handleExportOrders_try_def handleExportOrders_catch_def
  try_catch_finally_def

lemma handleExportOrders_returns: "fst (handleExportOrders a today r w) = None"
  by (simp add: handleExportOrders_defs Let_def split: sum.splits option.splits)

lemma handleExportOrders_calls:
  "calls (snd (handleExportOrders a today r w)) =
     calls w @ [ExportOrders (handleExportOrders_params r)]"
  by (simp add: handleExportOrders_defs setter_defs Let_def split: sum.splits option.splits)

text \<open>
  Claim C7: for every current query state, \<open>handleExportOrders\<close> sends one export
  request whose parameters are the current status, search text and date range (a
  field that is empty or null is left out of the object, as it stands for no filter),
  and the object has no other key: neither \<open>page\<close> nor \<open>sortField\<close> nor
  \<open>sortOrder\<close>.
\<close>

theorem handleExportOrders_sends_filters_only:
  "calls (snd (handleExportOrders a today (ui w) w)) =
     calls w @ [ExportOrders (handleExportOrders_params (ui w))] \<and>
   map_of (handleExportOrders_params (ui w)) ''status'' =
     (if filterStatus (ui w) = [] then None else Some (JStr (filterStatus (ui w)))) \<and>
   map_of (handleExportOrders_params (ui w)) ''search'' =
     (if searchTerm (ui w) = [] then None else Some (JStr (searchTerm (ui w)))) \<and>
   map_of (handleExportOrders_params (ui w)) ''startDate'' =
     map_option (\<lambda>t. JStr (toISOString t)) (startDate (ui w)) \<and>
   map_of (handleExportOrders_params (ui w)) ''endDate'' =
     map_option (\<lambda>t. JStr (toISOString t)) (endDate (ui w)) \<and>
   fst ` set (handleExportOrders_params (ui w)) \<subseteq>
     {''startDate'', ''endDate'', ''status'', ''search''} \<and>
   ''page'' \<notin> fst ` set (handleExportOrders_params (ui w)) \<and>
   ''sortField'' \<notin> fst ` set (handleExportOrders_params (ui w)) \<and>
   ''sortOrder'' \<notin> fst ` set (handleExportOrders_params (ui w))"
proof -
  have "''page'' \<notin> fst ` set (handleExportOrders_params (ui w))"
    and "''sortField'' \<notin> fst ` set (handleExportOrders_params (ui w))"
    and "''sortOrder'' \<notin> fst ` set (handleExportOrders_params (ui w))"
    using handleExportOrders_params_keys [of "ui w"] by auto
  with handleExportOrders_calls [of a today "ui w" w]
    handleExportOrders_params_values [of "ui w"] handleExportOrders_params_keys [of "ui w"]
  show ?thesis by simp
qed

theorem handleExportOrders_sends_filters_only_witness:
  "calls (snd (handleExportOrders (sample_api twelve_orders sample_stats [] (Inr (Some ''csv'')))
       ''2024-02-01'' (ui filtered_view) filtered_view)) =
     [ExportOrders [(''startDate'', JStr ''2024-01-01T00:00:00.000Z''),
                    (''endDate'', JStr ''2024-01-31T00:00:00.000Z''),
                    (''status'', JStr ''pending''), (''search'', JStr ''rice'')]]"
proof -
  have "handleExportOrders_params (ui filtered_view) =
      [(''startDate'', JStr ''2024-01-01T00:00:00.000Z''),
       (''endDate'', JStr ''2024-01-31T00:00:00.000Z''),
       (''status'', JStr ''pending''), (''search'', JStr ''rice'')]"
    by (simp add: handleExportOrders_params_def filtered_view_def sample_world_def
        initial_state_def spread_date_def spread_string_def toISOString_def)
  moreover have "calls filtered_view = []"
    by (simp add: filtered_view_def sample_world_def)
  ultimately show ?thesis
    using handleExportOrders_sends_filters_only
      [of "sample_api twelve_orders sample_stats [] (Inr (Some ''csv''))" "''2024-02-01''"
          filtered_view]
    by simp
qed

section \<open>Selection across page loads\<close>

lemma toggleAllOrders_selected:
  "set (selectedOrders (ui (toggleAllOrders r w))) =
     (if length (selectedOrders r) = length (orders r) then {} else set (map oid (orders r)))"
  by (simp add: toggleAllOrders_def setSelectedOrders_def set_set_of_array)

lemma toggleAllOrders_orders: "orders (ui (toggleAllOrders r w)) = orders (ui w)"
  by (simp add: toggleAllOrders_def setSelectedOrders_def)

lemma toggleOrderSelection_orders: "orders (ui (toggleOrderSelection x r w)) = orders (ui w)"
  by (simp add: toggleOrderSelection_def Let_def setSelectedOrders_def)

text \<open>
  Claim C2 says that the selection set is always within the ids of the last fetched
  page, and that selecting all and then loading another page leaves only ids of the new
  page selected. \<open>loadOrders\<close> never calls \<open>setSelectedOrders\<close>: with page 1 loaded
  and all of it selected, a successful load of page 2 leaves the ten ids of page 1
  selected, none of which is on page 2.
\<close>

theorem selection_after_page_load_counterexample:
  "error (ui (snd (loadOrders (sample_api twelve_orders sample_stats [] (Inr (Some ''csv'')))
       (ui (toggleAllOrders (ui showing_page_one) showing_page_one)) 2
       (toggleAllOrders (ui showing_page_one) showing_page_one)))) = None \<and>
   map oid (orders (ui (snd (loadOrders (sample_api twelve_orders sample_stats [] (Inr (Some ''csv'')))
       (ui (toggleAllOrders (ui showing_page_one) showing_page_one)) 2
       (toggleAllOrders (ui showing_page_one) showing_page_one))))) = [''o11'', ''o12''] \<and>
   selectedOrders (ui (snd (loadOrders (sample_api twelve_orders sample_stats [] (Inr (Some ''csv'')))
       (ui (toggleAllOrders (ui showing_page_one) showing_page_one)) 2
       (toggleAllOrders (ui showing_page_one) showing_page_one)))) =
     [''o01'', ''o02'', ''o03'', ''o04'', ''o05'', ''o06'', ''o07'', ''o08'', ''o09'', ''o10''] \<and>
   \<not> selection_in_page (ui (snd (loadOrders (sample_api twelve_orders sample_stats [] (Inr (Some ''csv'')))
       (ui (toggleAllOrders (ui showing_page_one) showing_page_one)) 2
       (toggleAllOrders (ui showing_page_one) showing_page_one))))"
proof -
  let ?a = "sample_api twelve_orders sample_stats [] (Inr (Some ''csv''))"
  let ?w1 = "toggleAllOrders (ui showing_page_one) showing_page_one"
  have sel: "selectedOrders (ui ?w1) =
      [''o01'', ''o02'', ''o03'', ''o04'', ''o05'', ''o06'', ''o07'', ''o08'', ''o09'', ''o10'']"
    by (simp add: toggleAllOrders_def setSelectedOrders_def sample_defs set_of_array_def
        set_add_def)
  have resp: "getAllOrders ?a (server ?w1) (loadOrders_params (ui ?w1) 2) =
      Inr (Some \<lparr>resp_orders = Some page_two, resp_total = 12\<rparr>)"
    by (simp add: sample_api_def twelve_orders_def loadOrders_params_def)
  have loaded: "ui (snd (loadOrders ?a (ui ?w1) 2 ?w1)) =
      (ui ?w1)\<lparr>orders := page_two, loading := False, error := None,
                currentPage := 2, totalPages := page_count 12\<rparr>"
    using loadOrders_ui_loaded(1) [OF resp] by simp
  show ?thesis
    unfolding loaded selection_in_page_def
    by (simp add: sel page_two_def order_of_def)
qed

section \<open>Failure of the stats request\<close>

lemma loadOrders_end_returns: "fst (loadOrders_end page result w) = None"
  by (simp add: loadOrders_defs split: sum.splits option.splits)

lemma loadOrderStats_end_returns: "fst (loadOrderStats_end r result w) = None"
  by (simp add: loadOrderStats_defs Let_def split: sum.splits option.splits)

text \<open>What handling the orders response writes depends on the response and, on failure,
  on the page cells only.\<close>

lemma loadOrders_end_cells:
  "orders (ui (snd (loadOrders_end page result w))) =
     (case result of
        Inr (Some response) \<Rightarrow> (case resp_orders response of Some os \<Rightarrow> os | None \<Rightarrow> [])
      | _ \<Rightarrow> [])"
  "totalPages (ui (snd (loadOrders_end page result w))) =
     (case result of
        Inr (Some response) \<Rightarrow>
          (case resp_orders response of
             Some os \<Rightarrow> page_count (resp_total response) | None \<Rightarrow> totalPages (ui w))
      | _ \<Rightarrow> totalPages (ui w))"
  "currentPage (ui (snd (loadOrders_end page result w))) =
     (case result of
        Inr (Some response) \<Rightarrow>
          (case resp_orders response of Some os \<Rightarrow> page | None \<Rightarrow> currentPage (ui w))
      | _ \<Rightarrow> currentPage (ui w))"
  "loading (ui (snd (loadOrders_end page result w))) = False"
  by (simp_all add: loadOrders_defs setter_defs split: sum.splits option.splits)

lemma loadOrders_end_keeps:
  "server (snd (loadOrders_end page result w)) = server w"
  "calls (snd (loadOrders_end page result w)) = calls w"
  "orderStats (ui (snd (loadOrders_end page result w))) = orderStats (ui w)"
  "statsLoading (ui (snd (loadOrders_end page result w))) = statsLoading (ui w)"
  "selectedOrders (ui (snd (loadOrders_end page result w))) = selectedOrders (ui w)"
  by (simp_all add: loadOrders_defs setter_defs split: sum.splits option.splits)

lemma loadOrderStats_end_keeps:
  "server (snd (loadOrderStats_end r result w)) = server w"
  "calls (snd (loadOrderStats_end r result w)) = calls w"
  "orders (ui (snd (loadOrderStats_end r result w))) = orders (ui w)"
  "totalPages (ui (snd (loadOrderStats_end r result w))) = totalPages (ui w)"
  "currentPage (ui (snd (loadOrderStats_end r result w))) = currentPage (ui w)"
  "loading (ui (snd (loadOrderStats_end r result w))) = loading (ui w)"
  "selectedOrders (ui (snd (loadOrderStats_end r result w))) = selectedOrders (ui w)"
  by (simp_all add: loadOrderStats_defs setter_defs Let_def split: sum.splits option.splits)

lemma loadOrders_begin_keeps:
  "server (loadOrders_begin r page w) = server w"
  "calls (loadOrders_begin r page w) = calls w @ [GetAllOrders (loadOrders_params r page)]"
  "toasts (loadOrders_begin r page w) = toasts w"
  "orders (ui (loadOrders_begin r page w)) = orders (ui w)"
  "totalPages (ui (loadOrders_begin r page w)) = totalPages (ui w)"
  "currentPage (ui (loadOrders_begin r page w)) = currentPage (ui w)"
  "orderStats (ui (loadOrders_begin r page w)) = orderStats (ui w)"
  "selectedOrders (ui (loadOrders_begin r page w)) = selectedOrders (ui w)"
  by (simp_all add: loadOrders_begin_def setter_defs)

lemma loadOrderStats_begin_keeps:
  "server (loadOrderStats_begin r w) = server w"
  "calls (loadOrderStats_begin r w) = calls w @ [GetOrderStats (loadOrderStats_params r)]"
  "toasts (loadOrderStats_begin r w) = toasts w"
  "orders (ui (loadOrderStats_begin r w)) = orders (ui w)"
  "totalPages (ui (loadOrderStats_begin r w)) = totalPages (ui w)"
  "currentPage (ui (loadOrderStats_begin r w)) = currentPage (ui w)"
  "loading (ui (loadOrderStats_begin r w)) = loading (ui w)"
  "selectedOrders (ui (loadOrderStats_begin r w)) = selectedOrders (ui w)"
  by (simp_all add: loadOrderStats_begin_def setter_defs)

lemma loadOrders_cells:
  "orders (ui (snd (loadOrders a r page w))) =
     orders (ui (snd (loadOrders_end page (getAllOrders a (server w) (loadOrders_params r page)) w)))"
  "totalPages (ui (snd (loadOrders a r page w))) =
     totalPages (ui (snd (loadOrders_end page (getAllOrders a (server w) (loadOrders_params r page)) w)))"
  "currentPage (ui (snd (loadOrders a r page w))) =
     currentPage (ui (snd (loadOrders_end page (getAllOrders a (server w) (loadOrders_params r page)) w)))"
  "loading (ui (snd (loadOrders a r page w))) = False"
  by (simp_all add: loadOrders_def Let_def loadOrders_end_cells loadOrders_begin_keeps
      split: sum.splits option.splits)

text \<open>The order list cells after the effect are those of \<open>loadOrders(1)\<close> alone, whichever
  response arrives first and whatever the stats request does.\<close>

lemma filters_effect_order_cells:
  "orders (ui (filters_effect a orders_first r w)) = orders (ui (snd (loadOrders a r 1 w)))"
  "totalPages (ui (filters_effect a orders_first r w)) = totalPages (ui (snd (loadOrders a r 1 w)))"
  "currentPage (ui (filters_effect a orders_first r w)) = currentPage (ui (snd (loadOrders a r 1 w)))"
  "loading (ui (filters_effect a orders_first r w)) = loading (ui (snd (loadOrders a r 1 w)))"
  by (simp_all add: filters_effect_def Let_def loadOrders_cells loadOrders_end_cells
      loadOrderStats_end_keeps loadOrderStats_begin_keeps loadOrders_begin_keeps
      split: sum.splits option.splits)

lemma loadOrders_after_loadOrderStats:
  "orders (ui (snd (loadOrders a r2 page (snd (loadOrderStats a r w))))) =
     orders (ui (snd (loadOrders a r2 page w)))"
  "totalPages (ui (snd (loadOrders a r2 page (snd (loadOrderStats a r w))))) =
     totalPages (ui (snd (loadOrders a r2 page w)))"
  "currentPage (ui (snd (loadOrders a r2 page (snd (loadOrderStats a r w))))) =
     currentPage (ui (snd (loadOrders a r2 page w)))"
  "loading (ui (snd (loadOrders a r2 page (snd (loadOrderStats a r w))))) =
     loading (ui (snd (loadOrders a r2 page w)))"
  by (simp_all add: loadOrders_cells loadOrders_end_cells loadOrderStats_server
      loadOrderStats_keeps split: sum.splits option.splits)


lemma loadOrderStats_failed:
  assumes "stats_request_failed (getOrderStats a (server w) (loadOrderStats_params r))"
  shows "orderStats (ui (snd (loadOrderStats a r w))) =
           Some \<lparr>totalOrders = int (length (orders r)), totalRevenue = 0,
                 averageOrderValue = 0, statusBreakdown = [], dailyStats = []\<rparr>"
    and "\<exists>msg. msg \<noteq> [] \<and> error (ui (snd (loadOrderStats a r w))) = Some msg \<and>
           toasts (snd (loadOrderStats a r w)) = toasts w @ [ToastError msg]"
  using assms
  by (auto simp: loadOrderStats_defs setter_defs stats_request_failed_def Let_def
      stats_errorMessage_def js_or_def Error_def split: sum.splits option.splits)




section \<open>The bulk status update\<close>

lemma update_each_applied:
  "apply_all a newStatus ids (server w) = Some srv' \<Longrightarrow>
     fst (update_each a newStatus ids w) = None \<and>
     server (snd (update_each a newStatus ids w)) = srv' \<and>
     calls (snd (update_each a newStatus ids w)) =
       calls w @ map (\<lambda>i. UpdateOrderStatus i newStatus) ids \<and>
     ui (snd (update_each a newStatus ids w)) = ui w \<and>
     toasts (snd (update_each a newStatus ids w)) = toasts w \<and>
     downloads (snd (update_each a newStatus ids w)) = downloads w"
proof (induction ids arbitrary: w)
  case Nil
  then show ?case by simp
next
  case (Cons i ids)
  from Cons.prems obtain srv1 where
    step: "updateOrderStatus a (server w) i newStatus = Inr srv1"
    and rest: "apply_all a newStatus ids srv1 = Some srv'"
    by (auto split: sum.splits)
  let ?w1 = "(log_call (UpdateOrderStatus i newStatus) w)\<lparr>server := srv1\<rparr>"
  have "apply_all a newStatus ids (server ?w1) = Some srv'"
    using rest by simp
  from Cons.IH [OF this] step show ?case
    by (simp add: log_call_def Let_def)
qed

lemma update_each_rejected:
  "apply_all a newStatus pre (server w) = Some srv1 \<Longrightarrow>
   updateOrderStatus a srv1 b newStatus = Inl err \<Longrightarrow>
     fst (update_each a newStatus (pre @ b # post) w) = Some err \<and>
     server (snd (update_each a newStatus (pre @ b # post) w)) = srv1 \<and>
     calls (snd (update_each a newStatus (pre @ b # post) w)) =
       calls w @ map (\<lambda>i. UpdateOrderStatus i newStatus) (pre @ [b]) \<and>
     ui (snd (update_each a newStatus (pre @ b # post) w)) = ui w \<and>
     toasts (snd (update_each a newStatus (pre @ b # post) w)) = toasts w \<and>
     downloads (snd (update_each a newStatus (pre @ b # post) w)) = downloads w"
proof (induction pre arbitrary: w)
  case Nil
  then show ?case by (simp add: log_call_def Let_def)
next
  case (Cons i pre)
  from Cons.prems(1) obtain srv0 where
    step: "updateOrderStatus a (server w) i newStatus = Inr srv0"
    and rest: "apply_all a newStatus pre srv0 = Some srv1"
    by (auto split: sum.splits)
  let ?w1 = "(log_call (UpdateOrderStatus i newStatus) w)\<lparr>server := srv0\<rparr>"
  have "apply_all a newStatus pre (server ?w1) = Some srv1"
    using rest by simp
  from Cons.IH [OF this Cons.prems(2)] step show ?case
    by (simp add: log_call_def Let_def)
qed

lemmas handleBulkStatusUpdate_defs =
  handleBulkStatusUpdate_def handleBulkStatusUpdate_try_def try_catch_finally_def

text \<open>A rejected update ends the loop; the rest of the \<open>try\<close> block is skipped.\<close>

lemma handleBulkStatusUpdate_rejected:
  assumes sel: "selectedOrders r = pre @ b # post"
    and pre: "apply_all a newStatus pre (server w) = Some srv1"
    and b: "updateOrderStatus a srv1 b newStatus = Inl err"
  shows "fst (handleBulkStatusUpdate a r newStatus w) = None"
    and "server (snd (handleBulkStatusUpdate a r newStatus w)) = srv1"
    and "calls (snd (handleBulkStatusUpdate a r newStatus w)) =
           calls w @ map (\<lambda>i. UpdateOrderStatus i newStatus) (pre @ [b])"
    and "toasts (snd (handleBulkStatusUpdate a r newStatus w)) =
           toasts w @ [ToastError ''Failed to update selected orders'']"
    and "ui (snd (handleBulkStatusUpdate a r newStatus w)) = (ui w)\<lparr>bulkActionLoading := False\<rparr>"
proof -
  let ?w0 = "setBulkActionLoading True w"
  have "apply_all a newStatus pre (server ?w0) = Some srv1"
    using pre by (simp add: setBulkActionLoading_def)
  from update_each_rejected [OF this b, of post]
  obtain w2 where run: "update_each a newStatus (pre @ b # post) ?w0 = (Some err, w2)"
    and w2: "server w2 = srv1"
      "calls w2 = calls ?w0 @ map (\<lambda>i. UpdateOrderStatus i newStatus) (pre @ [b])"
      "ui w2 = ui ?w0" "toasts w2 = toasts ?w0"
    by (cases "update_each a newStatus (pre @ b # post) ?w0") auto
  have body: "handleBulkStatusUpdate_try a r newStatus w = (Some err, w2)"
    by (simp add: handleBulkStatusUpdate_try_def Let_def sel run await_then_def)
  have whole: "handleBulkStatusUpdate a r newStatus w =
      (None, setBulkActionLoading False (toast_error ''Failed to update selected orders'' w2))"
    by (simp add: handleBulkStatusUpdate_def try_catch_finally_def sel body)
  show "fst (handleBulkStatusUpdate a r newStatus w) = None"
    and "server (snd (handleBulkStatusUpdate a r newStatus w)) = srv1"
    and "calls (snd (handleBulkStatusUpdate a r newStatus w)) =
           calls w @ map (\<lambda>i. UpdateOrderStatus i newStatus) (pre @ [b])"
    and "toasts (snd (handleBulkStatusUpdate a r newStatus w)) =
           toasts w @ [ToastError ''Failed to update selected orders'']"
    and "ui (snd (handleBulkStatusUpdate a r newStatus w)) = (ui w)\<lparr>bulkActionLoading := False\<rparr>"
    unfolding whole using w2 by (simp_all add: setter_defs)
qed

text \<open>When every update is accepted the selection is emptied and the page and the stats
  are loaded again.\<close>

lemma handleBulkStatusUpdate_applied:
  assumes sel: "selectedOrders r \<noteq> []"
    and all: "apply_all a newStatus (selectedOrders r) (server w) = Some srv2"
  shows "fst (handleBulkStatusUpdate a r newStatus w) = None"
    and "server (snd (handleBulkStatusUpdate a r newStatus w)) = srv2"
    and "calls (snd (handleBulkStatusUpdate a r newStatus w)) =
           calls w @ map (\<lambda>i. UpdateOrderStatus i newStatus) (selectedOrders r)
             @ [GetAllOrders (loadOrders_params r (currentPage r)),
                GetOrderStats (loadOrderStats_params r)]"
    and "selectedOrders (ui (snd (handleBulkStatusUpdate a r newStatus w))) = []"
    and "bulkActionLoading (ui (snd (handleBulkStatusUpdate a r newStatus w))) = False"
proof -
  let ?w0 = "setBulkActionLoading True w"
  have "apply_all a newStatus (selectedOrders r) (server ?w0) = Some srv2"
    using all by (simp add: setBulkActionLoading_def)
  from update_each_applied [OF this]
  obtain w2 where run: "update_each a newStatus (selectedOrders r) ?w0 = (None, w2)"
    and w2: "server w2 = srv2"
      "calls w2 = calls ?w0 @ map (\<lambda>i. UpdateOrderStatus i newStatus) (selectedOrders r)"
      "ui w2 = ui ?w0" "toasts w2 = toasts ?w0"
    by (cases "update_each a newStatus (selectedOrders r) ?w0") auto
  let ?w3 = "setSelectedOrders []
      (toast_success
        (string_of_nat (length (selectedOrders r)) @ '' orders updated to '' @ newStatus) w2)"
  let ?w4 = "snd (loadOrders a r (currentPage r) ?w3)"
  let ?w5 = "snd (loadOrderStats a r ?w4)"
  have body: "handleBulkStatusUpdate_try a r newStatus w = (None, ?w5)"
  proof -
    have "handleBulkStatusUpdate_try a r newStatus w = loadOrderStats a r ?w4"
      by (simp add: handleBulkStatusUpdate_try_def Let_def run await_then_returned
          loadOrders_returns)
    also have "\<dots> = (None, ?w5)"
      using loadOrderStats_returns [of a r ?w4] by (simp add: prod_eq_iff)
    finally show ?thesis .
  qed
  have whole: "handleBulkStatusUpdate a r newStatus w = (None, setBulkActionLoading False ?w5)"
    using sel by (simp add: handleBulkStatusUpdate_def try_catch_finally_def body)
  show "fst (handleBulkStatusUpdate a r newStatus w) = None"
    unfolding whole by simp
  show "server (snd (handleBulkStatusUpdate a r newStatus w)) = srv2"
    unfolding whole using w2
    by (simp add: setter_defs loadOrderStats_server loadOrders_server)
  show "calls (snd (handleBulkStatusUpdate a r newStatus w)) =
           calls w @ map (\<lambda>i. UpdateOrderStatus i newStatus) (selectedOrders r)
             @ [GetAllOrders (loadOrders_params r (currentPage r)),
                GetOrderStats (loadOrderStats_params r)]"
    unfolding whole using w2
    by (simp add: setter_defs loadOrderStats_calls loadOrders_calls)
  show "selectedOrders (ui (snd (handleBulkStatusUpdate a r newStatus w))) = []"
    unfolding whole
    by (simp add: setter_defs loadOrderStats_keeps loadOrders_selectedOrders)
  show "bulkActionLoading (ui (snd (handleBulkStatusUpdate a r newStatus w))) = False"
    unfolding whole by (simp add: setter_defs)
qed

lemma three_selected_cells:
  "selectedOrders (ui three_selected) = [''o01'', ''o02'', ''o03'']"
  "server three_selected = all_pending"
  "calls three_selected = []"
  "toasts three_selected = []"
  "currentPage (ui three_selected) = 1"
  by (simp_all add: three_selected_def sample_world_def initial_state_def)

lemma rejecting_o02_updates:
  "updateOrderStatus rejecting_o02 srv ''o01'' newStatus = Inr (srv(''o01'' \<mapsto> newStatus))"
  "updateOrderStatus rejecting_o02 srv ''o02'' newStatus = Inl (Error ''Request failed'')"
  "updateOrderStatus rejecting_o02 srv ''o03'' newStatus = Inr (srv(''o03'' \<mapsto> newStatus))"
  by (simp_all add: rejecting_o02_def sample_api_def)

lemma accepting_updates:
  "updateOrderStatus accepting srv i newStatus = Inr (srv(i \<mapsto> newStatus))"
  by (simp add: accepting_def sample_api_def)

text \<open>
  Claim C3 says that a bulk update over \<open>[A, B, C]\<close> in which the update of \<open>B\<close>
  fails ends with \<open>A\<close> and \<open>C\<close> in the new status and the selection cleared. The
  loop is inside the \<open>try\<close> block, so the rejected update of \<open>B\<close> leaves it: on a
  server that rejects \<open>o02\<close> only, marking \<open>o01, o02, o03\<close> as shipped leaves
  \<open>o03\<close> pending, and the three ids are still selected.
\<close>

theorem bulk_update_after_rejection_counterexample:
  "\<not> isl (updateOrderStatus rejecting_o02 all_pending ''o01'' ''shipped'') \<and>
   isl (updateOrderStatus rejecting_o02 all_pending ''o02'' ''shipped'') \<and>
   \<not> isl (updateOrderStatus rejecting_o02 all_pending ''o03'' ''shipped'') \<and>
   server (snd (handleBulkStatusUpdate rejecting_o02 (ui three_selected) ''shipped'' three_selected))
     ''o03'' = Some ''pending'' \<and>
   selectedOrders (ui (snd (handleBulkStatusUpdate rejecting_o02 (ui three_selected) ''shipped''
     three_selected))) = [''o01'', ''o02'', ''o03'']"
proof -
  have sel: "selectedOrders (ui three_selected) = [''o01''] @ ''o02'' # [''o03'']"
    by (simp add: three_selected_cells)
  have pre: "apply_all rejecting_o02 ''shipped'' [''o01''] (server three_selected) =
      Some (all_pending(''o01'' \<mapsto> ''shipped''))"
    by (simp add: rejecting_o02_updates three_selected_cells)
  note run = handleBulkStatusUpdate_rejected [OF sel pre rejecting_o02_updates(2)]
  show ?thesis
    unfolding run(2) run(5)
    by (simp add: rejecting_o02_updates three_selected_cells all_pending_def)
qed

text \<open>
  Claim C3, amended: for a bulk status update over selected ids \<open>[A, B, C]\<close> where
  the update of \<open>A\<close> succeeds and the update of \<open>B\<close> fails, the run returns normally
  with the server as the update of \<open>A\<close> alone left it (\<open>A\<close> in the new status,
  \<open>B\<close> and \<open>C\<close> unchanged, no request for \<open>C\<close> sent), exactly one error toast
  \<^verbatim>\<open>Failed to update selected orders\<close> shown, and the selection set still
  \<open>[A, B, C]\<close>.
\<close>

theorem bulk_update_stops_at_rejected_id:
  assumes "selectedOrders (ui w) = [A, B, C]"
    and "updateOrderStatus a (server w) A newStatus = Inr srv1"
    and "updateOrderStatus a srv1 B newStatus = Inl err"
  shows "let w' = snd (handleBulkStatusUpdate a (ui w) newStatus w) in
         fst (handleBulkStatusUpdate a (ui w) newStatus w) = None \<and>
         server w' = srv1 \<and>
         calls w' = calls w @ [UpdateOrderStatus A newStatus, UpdateOrderStatus B newStatus] \<and>
         toasts w' = toasts w @ [ToastError ''Failed to update selected orders''] \<and>
         selectedOrders (ui w') = [A, B, C]"
proof -
  have sel: "selectedOrders (ui w) = [A] @ B # [C]"
    using assms(1) by simp
  have pre: "apply_all a newStatus [A] (server w) = Some srv1"
    using assms(2) by simp
  note run = handleBulkStatusUpdate_rejected [OF sel pre assms(3)]
  show ?thesis
    unfolding Let_def run using assms(1) by simp
qed

theorem bulk_update_stops_at_rejected_id_witness:
  "server (snd (handleBulkStatusUpdate rejecting_o02 (ui three_selected) ''shipped'' three_selected))
     ''o01'' = Some ''shipped'' \<and>
   server (snd (handleBulkStatusUpdate rejecting_o02 (ui three_selected) ''shipped'' three_selected))
     ''o02'' = Some ''pending'' \<and>
   server (snd (handleBulkStatusUpdate rejecting_o02 (ui three_selected) ''shipped'' three_selected))
     ''o03'' = Some ''pending'' \<and>
   toasts (snd (handleBulkStatusUpdate rejecting_o02 (ui three_selected) ''shipped'' three_selected))
     = [ToastError ''Failed to update selected orders''] \<and>
   selectedOrders (ui (snd (handleBulkStatusUpdate rejecting_o02 (ui three_selected) ''shipped''
     three_selected))) = [''o01'', ''o02'', ''o03'']"
proof -
  have a: "updateOrderStatus rejecting_o02 (server three_selected) ''o01'' ''shipped'' =
      Inr (all_pending(''o01'' \<mapsto> ''shipped''))"
    by (simp add: rejecting_o02_updates three_selected_cells)
  from bulk_update_stops_at_rejected_id
    [OF three_selected_cells(1) a rejecting_o02_updates(2)]
  show ?thesis
    by (simp add: Let_def three_selected_cells all_pending_def)
qed

text \<open>
  Claim C4 says that when the k-th update of a bulk run fails, no update at or after
  position k is sent. The k-th request itself is sent, and it is its rejection that
  ends the loop: on the server that rejects \<open>o02\<close>, the requests made for the
  selection \<open>o01, o02, o03\<close> are those for \<open>o01\<close> and for \<open>o02\<close>.
\<close>

theorem bulk_update_rejected_request_counterexample:
  "isl (updateOrderStatus rejecting_o02 (all_pending(''o01'' \<mapsto> ''shipped'')) ''o02'' ''shipped'') \<and>
   calls (snd (handleBulkStatusUpdate rejecting_o02 (ui three_selected) ''shipped'' three_selected))
     = [UpdateOrderStatus ''o01'' ''shipped'', UpdateOrderStatus ''o02'' ''shipped''] \<and>
   UpdateOrderStatus ''o02'' ''shipped'' \<in>
     set (calls (snd (handleBulkStatusUpdate rejecting_o02 (ui three_selected) ''shipped''
       three_selected)))"
proof -
  have sel: "selectedOrders (ui three_selected) = [''o01''] @ ''o02'' # [''o03'']"
    by (simp add: three_selected_cells)
  have pre: "apply_all rejecting_o02 ''shipped'' [''o01''] (server three_selected) =
      Some (all_pending(''o01'' \<mapsto> ''shipped''))"
    by (simp add: rejecting_o02_updates three_selected_cells)
  note run = handleBulkStatusUpdate_rejected [OF sel pre rejecting_o02_updates(2)]
  show ?thesis
    unfolding run(3) by (simp add: rejecting_o02_updates three_selected_cells)
qed

text \<open>
  Claim C4, amended: \<open>handleBulkStatusUpdate\<close> sends one status-update request per
  selected id, one at a time in the iteration order of the selection set, and is not
  atomic. When every update is accepted, the requests are those of all the selected
  ids in order, followed by one reload of the page and of the stats, and the selection
  is emptied. When the update at some position is rejected after the updates before it
  were accepted, the run returns normally; the requests sent are exactly those up to
  and including the rejected one, in order; the server is as the accepted updates left
  it; no request for a later id is sent; and the caller sees the single toast
  \<^verbatim>\<open>Failed to update selected orders\<close>, the state cells being as before the
  run (with the bulk loading flag off), so nothing tells which updates were applied.
\<close>

theorem bulk_update_is_sequential_and_not_atomic:
  "(selectedOrders r \<noteq> [] \<and> apply_all a newStatus (selectedOrders r) (server w) = Some srv2 \<longrightarrow>
      fst (handleBulkStatusUpdate a r newStatus w) = None \<and>
      server (snd (handleBulkStatusUpdate a r newStatus w)) = srv2 \<and>
      calls (snd (handleBulkStatusUpdate a r newStatus w)) =
        calls w @ map (\<lambda>i. UpdateOrderStatus i newStatus) (selectedOrders r)
          @ [GetAllOrders (loadOrders_params r (currentPage r)),
             GetOrderStats (loadOrderStats_params r)] \<and>
      selectedOrders (ui (snd (handleBulkStatusUpdate a r newStatus w))) = []) \<and>
   (selectedOrders r = pre @ b # post \<and> apply_all a newStatus pre (server w) = Some srv1 \<and>
    updateOrderStatus a srv1 b newStatus = Inl err \<longrightarrow>
      fst (handleBulkStatusUpdate a r newStatus w) = None \<and>
      server (snd (handleBulkStatusUpdate a r newStatus w)) = srv1 \<and>
      calls (snd (handleBulkStatusUpdate a r newStatus w)) =
        calls w @ map (\<lambda>i. UpdateOrderStatus i newStatus) (pre @ [b]) \<and>
      toasts (snd (handleBulkStatusUpdate a r newStatus w)) =
        toasts w @ [ToastError ''Failed to update selected orders''] \<and>
      ui (snd (handleBulkStatusUpdate a r newStatus w)) = (ui w)\<lparr>bulkActionLoading := False\<rparr>)"
  using handleBulkStatusUpdate_applied [of r a newStatus w srv2]
    handleBulkStatusUpdate_rejected [of r pre b post a newStatus w srv1 err]
  by blast

theorem bulk_update_is_sequential_and_not_atomic_witness:
  "calls (snd (handleBulkStatusUpdate accepting (ui three_selected) ''shipped'' three_selected)) =
     [UpdateOrderStatus ''o01'' ''shipped'', UpdateOrderStatus ''o02'' ''shipped'',
      UpdateOrderStatus ''o03'' ''shipped'',
      GetAllOrders (loadOrders_params (ui three_selected) 1),
      GetOrderStats (loadOrderStats_params (ui three_selected))] \<and>
   selectedOrders (ui (snd (handleBulkStatusUpdate accepting (ui three_selected) ''shipped''
     three_selected))) = [] \<and>
   calls (snd (handleBulkStatusUpdate rejecting_o02 (ui three_selected) ''shipped'' three_selected))
     = [UpdateOrderStatus ''o01'' ''shipped'', UpdateOrderStatus ''o02'' ''shipped''] \<and>
   server (snd (handleBulkStatusUpdate rejecting_o02 (ui three_selected) ''shipped'' three_selected))
     = all_pending(''o01'' \<mapsto> ''shipped'') \<and>
   ui (snd (handleBulkStatusUpdate rejecting_o02 (ui three_selected) ''shipped'' three_selected))
     = (ui three_selected)\<lparr>bulkActionLoading := False\<rparr>"
proof -
  have all: "apply_all accepting ''shipped'' (selectedOrders (ui three_selected))
      (server three_selected) =
      Some (all_pending(''o01'' \<mapsto> ''shipped'', ''o02'' \<mapsto> ''shipped'', ''o03'' \<mapsto> ''shipped''))"
    by (simp add: accepting_updates three_selected_cells)
  have sel: "selectedOrders (ui three_selected) = [''o01''] @ ''o02'' # [''o03'']"
    by (simp add: three_selected_cells)
  have pre: "apply_all rejecting_o02 ''shipped'' [''o01''] (server three_selected) =
      Some (all_pending(''o01'' \<mapsto> ''shipped''))"
    by (simp add: rejecting_o02_updates three_selected_cells)
  have nonempty: "selectedOrders (ui three_selected) \<noteq> []"
    by (simp add: three_selected_cells)
  from bulk_update_is_sequential_and_not_atomic
      [of "ui three_selected" accepting "''shipped''" three_selected _ "[]" "''x''" "[]"
          all_pending network_error]
    nonempty all
  have ok: "calls (snd (handleBulkStatusUpdate accepting (ui three_selected) ''shipped''
        three_selected)) =
      calls three_selected
        @ map (\<lambda>i. UpdateOrderStatus i ''shipped'') (selectedOrders (ui three_selected))
        @ [GetAllOrders (loadOrders_params (ui three_selected) (currentPage (ui three_selected))),
           GetOrderStats (loadOrderStats_params (ui three_selected))]"
    and cleared: "selectedOrders (ui (snd (handleBulkStatusUpdate accepting (ui three_selected)
        ''shipped'' three_selected))) = []"
    by blast+
  from bulk_update_is_sequential_and_not_atomic
      [of "ui three_selected" rejecting_o02 "''shipped''" three_selected all_pending
          "[''o01'']" "''o02''" "[''o03'']" "all_pending(''o01'' \<mapsto> ''shipped'')"
          "Error ''Request failed''"]
    sel pre rejecting_o02_updates(2)
  have stopped: "calls (snd (handleBulkStatusUpdate rejecting_o02 (ui three_selected) ''shipped''
        three_selected)) =
      calls three_selected @ map (\<lambda>i. UpdateOrderStatus i ''shipped'') ([''o01''] @ [''o02''])"
    and srv: "server (snd (handleBulkStatusUpdate rejecting_o02 (ui three_selected) ''shipped''
        three_selected)) = all_pending(''o01'' \<mapsto> ''shipped'')"
    and cells: "ui (snd (handleBulkStatusUpdate rejecting_o02 (ui three_selected) ''shipped''
        three_selected)) = (ui three_selected)\<lparr>bulkActionLoading := False\<rparr>"
    by blast+
  from ok cleared stopped srv cells show ?thesis
    by (simp add: three_selected_cells)
qed

section \<open>Changing a filter field\<close>

lemma apply_change_keeps:
  "server (apply_change c r w) = server w"
  "calls (apply_change c r w) = calls w"
  "toasts (apply_change c r w) = toasts w"
  by (cases c; simp add: setter_defs)+

lemma apply_change_currentPage:
  "currentPage (ui (apply_change c r w)) = (if calls_setCurrentPage c then 1 else currentPage (ui w))"
  by (cases c) (simp_all add: setter_defs)

lemma filters_effect_calls:
  "calls (filters_effect a orders_first r w) =
     calls w @ [GetAllOrders (loadOrders_params r 1), GetOrderStats (loadOrderStats_params r)]"
  by (simp add: filters_effect_def Let_def loadOrders_end_keeps loadOrderStats_end_keeps
      loadOrders_begin_keeps loadOrderStats_begin_keeps)

lemma loadOrders_currentPage:
  "currentPage (ui (snd (loadOrders a r page w))) =
     (if orders_request_failed (getAllOrders a (server w) (loadOrders_params r page))
      then currentPage (ui w) else page)"
  by (simp add: loadOrders_cells loadOrders_end_cells orders_request_failed_def
      split: sum.splits option.splits)

lemma map_of_loadOrders_params:
  "map_of (loadOrders_params r page) ''page'' = Some (JNum page)"
  "map_of (loadOrders_params r page) ''limit'' = Some (JNum 10)"
  "map_of (loadOrders_params r page) ''status'' = Some (JStr (filterStatus r))"
  "map_of (loadOrders_params r page) ''search'' = Some (JStr (searchTerm r))"
  "map_of (loadOrders_params r page) ''sortField'' = Some (JStr (sortField r))"
  "map_of (loadOrders_params r page) ''sortOrder'' = Some (JStr (sortOrder r))"
  "map_of (loadOrders_params r page) ''startDate'' =
     map_option (\<lambda>t. JStr (toISOString t)) (startDate r)"
  "map_of (loadOrders_params r page) ''endDate'' =
     map_option (\<lambda>t. JStr (toISOString t)) (endDate r)"
  by (simp_all add: loadOrders_params_def ITEMS_PER_PAGE_def map_add_def map_of_spread_date
      split: option.splits)

lemma map_of_loadOrderStats_params:
  "map_of (loadOrderStats_params r) ''startDate'' =
     map_option (\<lambda>t. JStr (toISOString t)) (startDate r)"
  "map_of (loadOrderStats_params r) ''endDate'' =
     map_option (\<lambda>t. JStr (toISOString t)) (endDate r)"
  by (simp_all add: loadOrderStats_params_def map_add_def map_of_spread_date
      split: option.splits)

lemma change_filter_changed:
  assumes "deps (ui (apply_change c (ui w) w)) \<noteq> deps (ui w)"
  shows "change_filter a orders_first c w =
           filters_effect a orders_first (ui (apply_change c (ui w) w)) (apply_change c (ui w) w)"
  using assms by (simp add: change_filter_def rerender_def)

lemma change_filter_currentPage:
  assumes "deps (ui (apply_change c (ui w) w)) \<noteq> deps (ui w)"
  shows "currentPage (ui (change_filter a orders_first c w)) =
     (if orders_request_failed
           (getAllOrders a (server w) (loadOrders_params (ui (apply_change c (ui w) w)) 1))
      then (if calls_setCurrentPage c then 1 else currentPage (ui w))
      else 1)"
  unfolding change_filter_changed [OF assms]
  by (simp add: filters_effect_order_cells loadOrders_currentPage apply_change_keeps
      apply_change_currentPage)

lemma showing_page_two_cells:
  "currentPage (ui showing_page_two) = 2"
  "deps (ui showing_page_two) = (None, None, [], [], ''createdAt'', ''desc'')"
  "server showing_page_two = all_pending"
  "calls showing_page_two = []"
  by (simp_all add: showing_page_two_def sample_world_def initial_state_def deps_def)

lemma search_rice_on_page_two:
  "deps (ui (apply_change (SearchChange ''rice'') (ui showing_page_two) showing_page_two)) =
     (None, None, [], ''rice'', ''createdAt'', ''desc'')"
  by (simp add: showing_page_two_def sample_world_def initial_state_def deps_def setter_defs)

text \<open>
  What the five controls that change one field do: the effect sends one list request,
  for page 1, and one stats request, in that order and with the filters of the new
  render; the page number is 1 afterwards when the list request succeeds or the control
  is the status select or the date picker.
\<close>

lemma filter_change_reloads_page_one:
  assumes "deps (ui (apply_change c (ui w) w)) \<noteq> deps (ui w)"
  shows "let r' = ui (apply_change c (ui w) w); w' = change_filter a orders_first c w in
         calls w' = calls w @ [GetAllOrders (loadOrders_params r' 1),
                               GetOrderStats (loadOrderStats_params r')] \<and>
         map_of (loadOrders_params r' 1) ''page'' = Some (JNum 1) \<and>
         map_of (loadOrders_params r' 1) ''status'' = Some (JStr (filterStatus r')) \<and>
         map_of (loadOrders_params r' 1) ''search'' = Some (JStr (searchTerm r')) \<and>
         map_of (loadOrders_params r' 1) ''sortField'' = Some (JStr (sortField r')) \<and>
         map_of (loadOrders_params r' 1) ''sortOrder'' = Some (JStr (sortOrder r')) \<and>
         map_of (loadOrders_params r' 1) ''startDate'' =
           map_option (\<lambda>t. JStr (toISOString t)) (startDate r') \<and>
         map_of (loadOrders_params r' 1) ''endDate'' =
           map_option (\<lambda>t. JStr (toISOString t)) (endDate r') \<and>
         map_of (loadOrderStats_params r') ''startDate'' =
           map_option (\<lambda>t. JStr (toISOString t)) (startDate r') \<and>
         map_of (loadOrderStats_params r') ''endDate'' =
           map_option (\<lambda>t. JStr (toISOString t)) (endDate r') \<and>
         (calls_setCurrentPage c \<or>
          \<not> orders_request_failed (getAllOrders a (server w) (loadOrders_params r' 1))
            \<longrightarrow> currentPage (ui w') = 1)"
proof -
  let ?r = "ui (apply_change c (ui w) w)"
  have sent: "calls (change_filter a orders_first c w) =
      calls w @ [GetAllOrders (loadOrders_params ?r 1), GetOrderStats (loadOrderStats_params ?r)]"
    unfolding change_filter_changed [OF assms]
    by (simp add: filters_effect_calls apply_change_keeps)
  have page: "calls_setCurrentPage c \<or>
      \<not> orders_request_failed (getAllOrders a (server w) (loadOrders_params ?r 1))
        \<longrightarrow> currentPage (ui (change_filter a orders_first c w)) = 1"
    by (simp add: change_filter_currentPage [OF assms])
  from sent page show ?thesis
    unfolding Let_def
    by (simp only: map_of_loadOrders_params map_of_loadOrderStats_params simp_thms)
qed

lemma filter_change_reloads_page_one_example:
  "calls (change_filter accepting True (SearchChange ''rice'') showing_page_two) =
     [GetAllOrders [(''page'', JNum 1), (''limit'', JNum 10), (''status'', JStr ''''),
                    (''search'', JStr ''rice''), (''sortField'', JStr ''createdAt''),
                    (''sortOrder'', JStr ''desc'')],
      GetOrderStats []] \<and>
   currentPage (ui (change_filter accepting True (SearchChange ''rice'') showing_page_two)) = 1"
proof -
  let ?c = "SearchChange ''rice''"
  have changed:
    "deps (ui (apply_change ?c (ui showing_page_two) showing_page_two)) \<noteq> deps (ui showing_page_two)"
    unfolding search_rice_on_page_two showing_page_two_cells by simp
  have ok: "\<not> orders_request_failed (getAllOrders accepting srv p)" for srv p
    by (simp add: accepting_def sample_api_def orders_request_failed_def twelve_orders_def)
  have p1: "loadOrders_params (ui (apply_change ?c (ui showing_page_two) showing_page_two)) 1 =
      [(''page'', JNum 1), (''limit'', JNum 10), (''status'', JStr ''''),
       (''search'', JStr ''rice''), (''sortField'', JStr ''createdAt''),
       (''sortOrder'', JStr ''desc'')]"
    by (simp add: loadOrders_params_def showing_page_two_def sample_world_def initial_state_def
        setter_defs spread_date_def ITEMS_PER_PAGE_def)
  have p2: "loadOrderStats_params (ui (apply_change ?c (ui showing_page_two) showing_page_two)) = []"
    by (simp add: loadOrderStats_params_def showing_page_two_def sample_world_def
        initial_state_def setter_defs spread_date_def)
  from filter_change_reloads_page_one [OF changed, of accepting True, unfolded Let_def] ok
  have sent: "calls (change_filter accepting True ?c showing_page_two) =
      calls showing_page_two @
        [GetAllOrders (loadOrders_params
           (ui (apply_change ?c (ui showing_page_two) showing_page_two)) 1),
         GetOrderStats (loadOrderStats_params
           (ui (apply_change ?c (ui showing_page_two) showing_page_two)))]"
    and page: "currentPage (ui (change_filter accepting True ?c showing_page_two)) = 1"
    by blast+
  from sent [unfolded p1 p2] page show ?thesis
    by (simp add: showing_page_two_cells)
qed

section \<open>No handler throws\<close>

lemma try_catch_finally_returns:
  assumes "\<And>err w'. fst (handler err w') = None" and "\<And>w'. fst (fin w') = None"
  shows "fst (try_catch_finally body handler fin w) = None"
proof (cases "body w")
  case (Pair outcome w1)
  show ?thesis
  proof (cases outcome)
    case None
    with Pair assms(2) show ?thesis by (simp add: try_catch_finally_def)
  next
    case (Some err)
    obtain o2 w2 where h: "handler err w1 = (o2, w2)" by (cases "handler err w1")
    with assms(1) [of err w1] have "o2 = None" by simp
    with Pair Some h assms(2) show ?thesis by (simp add: try_catch_finally_def)
  qed
qed

lemma handleStatusUpdate_returns: "fst (handleStatusUpdate a r orderId newStatus w) = None"
  unfolding handleStatusUpdate_def
  by (rule try_catch_finally_returns) (simp_all add: handleStatusUpdate_catch_def)

lemma handleBulkStatusUpdate_returns: "fst (handleBulkStatusUpdate a r newStatus w) = None"
proof (cases "length (selectedOrders r) = 0")
  case True
  then show ?thesis by (simp add: handleBulkStatusUpdate_def)
next
  case False
  then have "handleBulkStatusUpdate a r newStatus w =
      try_catch_finally (handleBulkStatusUpdate_try a r newStatus)
        (\<lambda>err w'. (None, toast_error ''Failed to update selected orders'' w'))
        (\<lambda>w'. (None, setBulkActionLoading False w')) w"
    by (simp add: handleBulkStatusUpdate_def)
  then show ?thesis by (simp add: try_catch_finally_returns)
qed

lemma handleStatusUpdate_rejected:
  assumes "updateOrderStatus a (server w) orderId newStatus = Inl err"
  shows "toasts (snd (handleStatusUpdate a r orderId newStatus w)) =
           toasts w @ [ToastError (js_or (response_data_error err) ''Failed to update order status'')]"
    and "calls (snd (handleStatusUpdate a r orderId newStatus w)) =
           calls w @ [UpdateOrderStatus orderId newStatus]"
    and "server (snd (handleStatusUpdate a r orderId newStatus w)) = server w"
    and "ui (snd (handleStatusUpdate a r orderId newStatus w)) = (ui w)\<lparr>updatingStatus := None\<rparr>"
  using assms
  by (simp_all add: handleStatusUpdate_def handleStatusUpdate_try_def handleStatusUpdate_catch_def
      try_catch_finally_def Let_def setter_defs)

text \<open>An accepted update is followed by both reloads, whatever the first of them does.\<close>

lemma handleStatusUpdate_accepted:
  assumes "updateOrderStatus a (server w) orderId newStatus = Inr srv'"
  shows "calls (snd (handleStatusUpdate a r orderId newStatus w)) =
           calls w @ [UpdateOrderStatus orderId newStatus,
                      GetAllOrders (loadOrders_params r (currentPage r)),
                      GetOrderStats (loadOrderStats_params r)]"
    and "server (snd (handleStatusUpdate a r orderId newStatus w)) = srv'"
proof -
  let ?w1 = "log_call (UpdateOrderStatus orderId newStatus) (setUpdatingStatus (Some orderId) w)"
  let ?w3 = "toast_success ''Order status updated'' (?w1\<lparr>server := srv'\<rparr>)"
  let ?w4 = "snd (loadOrders a r (currentPage r) ?w3)"
  let ?w5 = "snd (loadOrderStats a r ?w4)"
  have srv: "server ?w1 = server w"
    by (simp add: setter_defs)
  have "handleStatusUpdate_try a r orderId newStatus w = loadOrderStats a r ?w4"
    using assms
    by (simp add: handleStatusUpdate_try_def Let_def srv await_then_returned loadOrders_returns)
  also have "\<dots> = (None, ?w5)"
    using loadOrderStats_returns [of a r ?w4] by (simp add: prod_eq_iff)
  finally have whole: "handleStatusUpdate a r orderId newStatus w =
      (None, setUpdatingStatus None ?w5)"
    by (simp add: handleStatusUpdate_def try_catch_finally_def)
  show "calls (snd (handleStatusUpdate a r orderId newStatus w)) =
           calls w @ [UpdateOrderStatus orderId newStatus,
                      GetAllOrders (loadOrders_params r (currentPage r)),
                      GetOrderStats (loadOrderStats_params r)]"
    unfolding whole by (simp add: setter_defs loadOrderStats_calls loadOrders_calls)
  show "server (snd (handleStatusUpdate a r orderId newStatus w)) = srv'"
    unfolding whole by (simp add: setter_defs loadOrderStats_server loadOrders_server)
qed

lemma handleExportOrders_failed:
  assumes "export_request_failed (exportOrders a (server w) (handleExportOrders_params r))"
  shows "\<exists>msg. msg \<noteq> [] \<and>
           toasts (snd (handleExportOrders a today r w)) = toasts w @ [ToastError msg] \<and>
           error (ui (snd (handleExportOrders a today r w))) = Some msg \<and>
           downloads (snd (handleExportOrders a today r w)) = downloads w"
  using assms
  by (auto simp: handleExportOrders_defs export_request_failed_def export_errorMessage_def
      setter_defs Let_def js_or_def Error_def split: sum.splits option.splits)

lemma loadOrderStats_after_loadOrders:
  "orderStats (ui (snd (loadOrderStats a r (snd (loadOrders a r2 page w))))) =
     orderStats (ui (snd (loadOrderStats a r w)))"
  by (simp add: loadOrderStats_defs setter_defs Let_def loadOrders_server
      split: sum.splits option.splits)

lemma handleBulkStatusUpdate_none_selected:
  "selectedOrders r = [] \<Longrightarrow>
     handleBulkStatusUpdate a r newStatus w = (None, toast_error ''No orders selected'' w)"
  by (simp add: handleBulkStatusUpdate_def)

lemma loadOrders_any_nullish:
  assumes "request (server w) (loadOrders_params r page) = Inl Nullish"
  shows "loadOrders_any request r page w =
           (Some (ErrorObject nullish_TypeError), setLoading False (loadOrders_begin r page w))"
  using assms
  by (simp add: loadOrders_any_def Let_def loadOrders_begin_keeps loadOrders_try_any_def
      loadOrders_catch_any_def try_catch_finally_def as_rejection_def loadOrders_finally_def)

text \<open>On a list request that rejects with error objects only, \<open>loadOrders_any\<close> is
  \<open>loadOrders\<close>.\<close>

lemma loadOrders_any_objects:
  "loadOrders_any (\<lambda>srv p. map_sum ErrorObject id (getAllOrders a srv p)) r page w =
     as_rejection (loadOrders a r page w)"
proof (cases "getAllOrders a (server w) (loadOrders_params r page)")
  case (Inl err)
  then show ?thesis
    by (simp add: loadOrders_any_def loadOrders_def Let_def loadOrders_begin_keeps
        loadOrders_end_def loadOrders_try_any_def loadOrders_catch_any_def loadOrders_try_def
        loadOrders_catch_def loadOrders_finally_def try_catch_finally_def as_rejection_def)
next
  case (Inr response)
  then show ?thesis
    by (simp add: loadOrders_any_def loadOrders_def Let_def loadOrders_begin_keeps
        loadOrders_end_def loadOrders_try_any_def loadOrders_catch_any_def loadOrders_try_def
        loadOrders_catch_def loadOrders_finally_def try_catch_finally_def as_rejection_def
        Error_def split: option.splits)
qed

lemma loadOrderStats_loaded:
  assumes "getOrderStats a (server w) (loadOrderStats_params r) = Inr (Some response)"
  shows "error (ui (snd (loadOrderStats a r w))) = None"
    and "toasts (snd (loadOrderStats a r w)) = toasts w"
  using assms by (simp_all add: loadOrderStats_defs setter_defs Let_def)

lemma handleStatusUpdate_accepted_run:
  assumes "updateOrderStatus a (server w) orderId newStatus = Inr srv'"
  shows "handleStatusUpdate a r orderId newStatus w =
     (None, setUpdatingStatus None
        (snd (loadOrderStats a r
          (snd (loadOrders a r (currentPage r)
            (toast_success ''Order status updated''
              ((log_call (UpdateOrderStatus orderId newStatus)
                 (setUpdatingStatus (Some orderId) w))\<lparr>server := srv'\<rparr>)))))))"
proof -
  let ?w1 = "log_call (UpdateOrderStatus orderId newStatus) (setUpdatingStatus (Some orderId) w)"
  let ?w3 = "toast_success ''Order status updated'' (?w1\<lparr>server := srv'\<rparr>)"
  let ?w4 = "snd (loadOrders a r (currentPage r) ?w3)"
  have srv: "server ?w1 = server w"
    by (simp add: setter_defs)
  have "handleStatusUpdate_try a r orderId newStatus w = loadOrderStats a r ?w4"
    using assms
    by (simp add: handleStatusUpdate_try_def Let_def srv await_then_returned loadOrders_returns)
  also have "\<dots> = (None, snd (loadOrderStats a r ?w4))"
    using loadOrderStats_returns [of a r ?w4] by (simp add: prod_eq_iff)
  finally show ?thesis
    by (simp add: handleStatusUpdate_def try_catch_finally_def)
qed

text \<open>
  Claim C9 says that no operation ever propagates an exception, every failure being
  caught and surfaced as an error message, and that a failure of one operation does not
  change the behaviour of any other. Three runs of the code against it. A list request
  that rejects with \<open>undefined\<close> makes the \<open>catch\<close> block of \<open>loadOrders\<close> throw
  a \<open>TypeError\<close> to the caller, with no error set and no toast shown. With ten orders
  loaded and the stats request failing, the stats loader of the next render leaves
  \<open>totalOrders = 10\<close> after a list load that succeeded and \<open>totalOrders = 0\<close> after
  one that failed. And in \<open>handleStatusUpdate\<close> the stats reload, which starts with
  \<open>setError(null)\<close>, removes the error message that the failed list reload before it
  had set.
\<close>

theorem failures_propagate_and_interfere_counterexample:
  "fst (loadOrders_any (\<lambda>srv p. Inl Nullish) (ui showing_page_one) 1 showing_page_one) =
     Some (ErrorObject nullish_TypeError) \<and>
   error (ui (snd (loadOrders_any (\<lambda>srv p. Inl Nullish) (ui showing_page_one) 1
     showing_page_one))) = None \<and>
   toasts (snd (loadOrders_any (\<lambda>srv p. Inl Nullish) (ui showing_page_one) 1
     showing_page_one)) = [] \<and>
   map_option totalOrders (orderStats (ui (snd (loadOrderStats stats_down
       (ui (snd (loadOrders stats_down (ui showing_page_one) 1 showing_page_one)))
       (snd (loadOrders stats_down (ui showing_page_one) 1 showing_page_one)))))) = Some 10 \<and>
   map_option totalOrders (orderStats (ui (snd (loadOrderStats all_down
       (ui (snd (loadOrders all_down (ui showing_page_one) 1 showing_page_one)))
       (snd (loadOrders all_down (ui showing_page_one) 1 showing_page_one)))))) = Some 0 \<and>
   error (ui (snd (loadOrders list_down (ui three_selected) 1 three_selected))) =
     Some ''Network Error'' \<and>
   error (ui (snd (handleStatusUpdate list_down (ui three_selected) ''o01'' ''shipped''
     three_selected))) = None \<and>
   orders (ui (snd (handleStatusUpdate list_down (ui three_selected) ''o01'' ''shipped''
     three_selected))) = []"
proof -
  let ?null = "\<lambda>(srv :: string \<Rightarrow> string option) (p :: params).
      (Inl Nullish :: rejection + orders_response option)"
  have thrown: "loadOrders_any ?null (ui showing_page_one) 1 showing_page_one =
      (Some (ErrorObject nullish_TypeError),
       setLoading False (loadOrders_begin (ui showing_page_one) 1 showing_page_one))"
    by (rule loadOrders_any_nullish) simp
  have silent: "error (ui (setLoading False (loadOrders_begin (ui showing_page_one) 1
        showing_page_one))) = None"
      "toasts (setLoading False (loadOrders_begin (ui showing_page_one) 1 showing_page_one)) = []"
    by (simp_all add: loadOrders_begin_def setter_defs showing_page_one_def sample_world_def)

  let ?w1 = "snd (loadOrders stats_down (ui showing_page_one) 1 showing_page_one)"
  have resp: "getAllOrders stats_down (server showing_page_one)
      (loadOrders_params (ui showing_page_one) 1) =
      Inr (Some \<lparr>resp_orders = Some page_one, resp_total = 12\<rparr>)"
    by (simp add: stats_down_def sample_api_def twelve_orders_def loadOrders_params_def)
  have ten: "int (length (orders (ui ?w1))) = 10"
    using loadOrders_ui_loaded(1) [OF resp] by (simp add: page_one_def)
  have stats_failed: "stats_request_failed (getOrderStats stats_down srv p)" for srv p
    by (simp add: stats_down_def sample_api_def stats_request_failed_def)
  have after_loaded: "map_option totalOrders
      (orderStats (ui (snd (loadOrderStats stats_down (ui ?w1) ?w1)))) = Some 10"
    unfolding loadOrderStats_failed(1) [OF stats_failed] using ten by simp

  let ?w2 = "snd (loadOrders all_down (ui showing_page_one) 1 showing_page_one)"
  have list_failed: "orders_request_failed (getAllOrders all_down srv p)" for srv p
    by (simp add: all_down_def orders_request_failed_def)
  have none: "orders (ui ?w2) = []"
    by (rule loadOrders_failed(1) [OF list_failed])
  have stats_failed': "stats_request_failed (getOrderStats all_down srv p)" for srv p
    by (simp add: all_down_def stats_request_failed_def)
  have after_failed: "map_option totalOrders
      (orderStats (ui (snd (loadOrderStats all_down (ui ?w2) ?w2)))) = Some 0"
    unfolding loadOrderStats_failed(1) [OF stats_failed'] using none by simp

  have alone: "error (ui (snd (loadOrders list_down (ui three_selected) 1 three_selected))) =
      Some ''Network Error''"
    by (simp add: list_down_def sample_api_def network_error_def Error_def loadOrders_defs
        setter_defs js_or_def)
  have accepted: "updateOrderStatus list_down (server three_selected) ''o01'' ''shipped'' =
      Inr ((server three_selected)(''o01'' \<mapsto> ''shipped''))"
    by (simp add: list_down_def sample_api_def)
  have down: "orders_request_failed (getAllOrders list_down srv p)" for srv p
    by (simp add: list_down_def sample_api_def orders_request_failed_def)
  have stats_ok: "getOrderStats list_down srv p =
      Inr (Some \<lparr>resp_totalOrders = Some 12, resp_totalRevenue = Some 1200,
                 resp_averageOrderValue = Some 100,
                 resp_statusBreakdown = Some [(''pending'', 12)],
                 resp_dailyStats = Some []\<rparr>)" for srv p
    by (simp add: list_down_def sample_api_def sample_stats_def)
  have wiped: "error (ui (snd (handleStatusUpdate list_down (ui three_selected) ''o01''
        ''shipped'' three_selected))) = None"
    unfolding handleStatusUpdate_accepted_run [OF accepted]
    by (simp add: setUpdatingStatus_def loadOrderStats_loaded(1) [OF stats_ok])
  have emptied: "orders (ui (snd (handleStatusUpdate list_down (ui three_selected) ''o01''
        ''shipped'' three_selected))) = []"
    unfolding handleStatusUpdate_accepted_run [OF accepted]
    by (simp add: setUpdatingStatus_def loadOrderStats_keeps loadOrders_failed(1) [OF down])
  from thrown silent after_loaded after_failed alone wiped emptied show ?thesis
    by simp
qed

text \<open>
  Claim C9, amended: none of \<open>loadOrders\<close>, \<open>loadOrderStats\<close>,
  \<open>handleStatusUpdate\<close>, \<open>handleBulkStatusUpdate\<close> and \<open>handleExportOrders\<close>
  propagates to its caller the failure of a request that fails with an error object, as
  the \<open>RequestError\<close> of the service contract is: from every state each of them
  returns normally, and the failure of its request is surfaced as one error toast. A
  failure does not block the other loader: called from the same render, \<open>loadOrders\<close>
  leaves the same order list, page count and current page whether or not a stats load
  ran before it, \<open>loadOrderStats\<close> leaves the same stats snapshot whether or not an
  order load ran before it, and after an accepted status update both reloads are
  requested whatever the first of them does.
\<close>

theorem handlers_catch_every_failure:
  "fst (loadOrders a r page w) = None \<and>
   fst (loadOrderStats a r w) = None \<and>
   fst (handleStatusUpdate a r orderId newStatus w) = None \<and>
   fst (handleBulkStatusUpdate a r newStatus w) = None \<and>
   fst (handleExportOrders a today r w) = None \<and>
   (orders_request_failed (getAllOrders a (server w) (loadOrders_params r page)) \<longrightarrow>
      toasts (snd (loadOrders a r page w)) = toasts w @ [ToastError ''Failed to load orders'']) \<and>
   (stats_request_failed (getOrderStats a (server w) (loadOrderStats_params r)) \<longrightarrow>
      (\<exists>msg. msg \<noteq> [] \<and> toasts (snd (loadOrderStats a r w)) = toasts w @ [ToastError msg])) \<and>
   (updateOrderStatus a (server w) orderId newStatus = Inl err \<longrightarrow>
      toasts (snd (handleStatusUpdate a r orderId newStatus w)) =
        toasts w @ [ToastError (js_or (response_data_error err) ''Failed to update order status'')]) \<and>
   (selectedOrders r = pre @ b # post \<and> apply_all a newStatus pre (server w) = Some srv1 \<and>
    updateOrderStatus a srv1 b newStatus = Inl err \<longrightarrow>
      toasts (snd (handleBulkStatusUpdate a r newStatus w)) =
        toasts w @ [ToastError ''Failed to update selected orders'']) \<and>
   (export_request_failed (exportOrders a (server w) (handleExportOrders_params r)) \<longrightarrow>
      (\<exists>msg. msg \<noteq> [] \<and>
         toasts (snd (handleExportOrders a today r w)) = toasts w @ [ToastError msg])) \<and>
   orders (ui (snd (loadOrders a r page (snd (loadOrderStats a r w))))) =
     orders (ui (snd (loadOrders a r page w))) \<and>
   totalPages (ui (snd (loadOrders a r page (snd (loadOrderStats a r w))))) =
     totalPages (ui (snd (loadOrders a r page w))) \<and>
   currentPage (ui (snd (loadOrders a r page (snd (loadOrderStats a r w))))) =
     currentPage (ui (snd (loadOrders a r page w))) \<and>
   orderStats (ui (snd (loadOrderStats a r (snd (loadOrders a r page w))))) =
     orderStats (ui (snd (loadOrderStats a r w))) \<and>
   (updateOrderStatus a (server w) orderId newStatus = Inr srv2 \<longrightarrow>
      calls (snd (handleStatusUpdate a r orderId newStatus w)) =
        calls w @ [UpdateOrderStatus orderId newStatus,
                   GetAllOrders (loadOrders_params r (currentPage r)),
                   GetOrderStats (loadOrderStats_params r)])"
proof -
  have stats: "stats_request_failed (getOrderStats a (server w) (loadOrderStats_params r)) \<longrightarrow>
      (\<exists>msg. msg \<noteq> [] \<and> toasts (snd (loadOrderStats a r w)) = toasts w @ [ToastError msg])"
    using loadOrderStats_failed(2) [of a w r] by blast
  have export: "export_request_failed (exportOrders a (server w) (handleExportOrders_params r)) \<longrightarrow>
      (\<exists>msg. msg \<noteq> [] \<and>
         toasts (snd (handleExportOrders a today r w)) = toasts w @ [ToastError msg])"
    using handleExportOrders_failed [of a w r today] by blast
  have bulk: "selectedOrders r = pre @ b # post \<and> apply_all a newStatus pre (server w) = Some srv1 \<and>
      updateOrderStatus a srv1 b newStatus = Inl err \<longrightarrow>
      toasts (snd (handleBulkStatusUpdate a r newStatus w)) =
        toasts w @ [ToastError ''Failed to update selected orders'']"
    using handleBulkStatusUpdate_rejected(4) [of r pre b post a newStatus w srv1 err] by blast
  show ?thesis
    using stats export bulk
      loadOrders_returns [of a r page w] loadOrderStats_returns [of a r w]
      handleStatusUpdate_returns [of a r orderId newStatus w]
      handleBulkStatusUpdate_returns [of a r newStatus w]
      handleExportOrders_returns [of a today r w]
      loadOrders_failed(6) [of a w r page]
      handleStatusUpdate_rejected(1) [of a w orderId newStatus err r]
      loadOrders_after_loadOrderStats(1,2,3) [of a r page r w]
      loadOrderStats_after_loadOrders [of a r r page w]
      handleStatusUpdate_accepted(1) [of a w orderId newStatus srv2 r]
    by blast
qed

theorem handlers_catch_every_failure_witness:
  "fst (handleStatusUpdate all_down (ui three_selected) ''o01'' ''shipped'' three_selected) = None \<and>
   toasts (snd (loadOrders all_down (ui three_selected) 1 three_selected)) =
     [ToastError ''Failed to load orders''] \<and>
   toasts (snd (handleStatusUpdate all_down (ui three_selected) ''o01'' ''shipped'' three_selected)) =
     [ToastError ''Failed to update order status''] \<and>
   toasts (snd (handleBulkStatusUpdate all_down (ui three_selected) ''shipped'' three_selected)) =
     [ToastError ''Failed to update selected orders''] \<and>
   calls (snd (handleStatusUpdate list_down (ui three_selected) ''o01'' ''shipped'' three_selected)) =
     [UpdateOrderStatus ''o01'' ''shipped'',
      GetAllOrders (loadOrders_params (ui three_selected) 1),
      GetOrderStats (loadOrderStats_params (ui three_selected))]"
proof -
  have list_failed: "orders_request_failed (getAllOrders all_down srv p)" for srv p
    by (simp add: all_down_def orders_request_failed_def)
  have stats_failed: "stats_request_failed (getOrderStats all_down srv p)" for srv p
    by (simp add: all_down_def stats_request_failed_def)
  have export_failed: "export_request_failed (exportOrders all_down srv p)" for srv p
    by (simp add: all_down_def export_request_failed_def)
  have rejected: "updateOrderStatus all_down srv i st = Inl network_error" for srv i st
    by (simp add: all_down_def)
  have sel: "selectedOrders (ui three_selected) = [] @ ''o01'' # [''o02'', ''o03'']"
    by (simp add: three_selected_cells)
  have pre: "apply_all all_down ''shipped'' [] (server three_selected) = Some (server three_selected)"
    by simp
  have accepted: "updateOrderStatus list_down (server three_selected) ''o01'' ''shipped'' =
      Inr ((server three_selected)(''o01'' \<mapsto> ''shipped''))"
    by (simp add: list_down_def sample_api_def)
  have msg: "js_or (response_data_error network_error) ''Failed to update order status'' =
      ''Failed to update order status''"
    by (simp add: js_or_def network_error_def Error_def)
  from handlers_catch_every_failure
      [of all_down "ui three_selected" 1 three_selected "''o01''" "''shipped''" "''2024-02-01''"
          network_error "[]" "''o01''" "[''o02'', ''o03'']" "server three_selected"
          "server three_selected"]
    list_failed stats_failed export_failed rejected sel pre
  have down: "fst (handleStatusUpdate all_down (ui three_selected) ''o01'' ''shipped'' three_selected)
        = None"
    "toasts (snd (loadOrders all_down (ui three_selected) 1 three_selected)) =
       toasts three_selected @ [ToastError ''Failed to load orders'']"
    "toasts (snd (handleStatusUpdate all_down (ui three_selected) ''o01'' ''shipped'' three_selected))
       = toasts three_selected @
         [ToastError (js_or (response_data_error network_error) ''Failed to update order status'')]"
    "toasts (snd (handleBulkStatusUpdate all_down (ui three_selected) ''shipped'' three_selected)) =
       toasts three_selected @ [ToastError ''Failed to update selected orders'']"
    by blast+
  from handlers_catch_every_failure
      [of list_down "ui three_selected" 1 three_selected "''o01''" "''shipped''" "''2024-02-01''"
          network_error "[]" "''o01''" "[''o02'', ''o03'']" "server three_selected"
          "(server three_selected)(''o01'' \<mapsto> ''shipped'')"]
    accepted
  have reload: "calls (snd (handleStatusUpdate list_down (ui three_selected) ''o01'' ''shipped''
        three_selected)) =
      calls three_selected @ [UpdateOrderStatus ''o01'' ''shipped'',
        GetAllOrders (loadOrders_params (ui three_selected) (currentPage (ui three_selected))),
        GetOrderStats (loadOrderStats_params (ui three_selected))]"
    by blast
  from down reload show ?thesis
    by (simp add: msg three_selected_cells)
qed

section \<open>Reset, and the answers still pending\<close>

lemma settle_keeps:
  "selectedOrders (ui (settle p w)) = selectedOrders (ui w)"
  "calls (settle p w) = calls w"
  "server (settle p w) = server w"
  by (cases p; simp add: loadOrders_end_keeps loadOrderStats_end_keeps)+

lemma fold_settle_keeps:
  "selectedOrders (ui (fold settle ps w)) = selectedOrders (ui w)"
  "calls (fold settle ps w) = calls w"
  "server (fold settle ps w) = server w"
  by (induction ps arbitrary: w; simp add: settle_keeps)+

lemma set_without_nth:
  "i < length xs \<Longrightarrow> insert (xs ! i) (set (take i xs @ drop (Suc i) xs)) = set xs"
proof -
  assume "i < length xs"
  then have "xs = take i xs @ xs ! i # drop (Suc i) xs"
    by (rule id_take_nth_drop)
  then have "set xs = set (take i xs @ xs ! i # drop (Suc i) xs)"
    by simp
  then show ?thesis by simp
qed

lemma set_arrival_order: "set (arrival_order ns xs) = set xs"
proof (induction ns xs rule: arrival_order.induct)
  case (1 ns)
  show ?case by simp
next
  case (2 x xs)
  show ?case by simp
next
  case (3 n ns x xs)
  let ?ys = "x # xs"
  let ?i = "n mod length ?ys"
  have i: "?i < length ?ys" by simp
  have "set (arrival_order (n # ns) ?ys) =
      insert (?ys ! ?i) (set (arrival_order ns (take ?i ?ys @ drop (Suc ?i) ?ys)))"
    by (simp add: Let_def)
  also have "\<dots> = insert (?ys ! ?i) (set (take ?i ?ys @ drop (Suc ?i) ?ys))"
    using "3.IH" [of ?i] by simp
  also have "\<dots> = set ?ys"
    using set_without_nth [OF i] .
  finally show ?case .
qed

lemma arrival_order_in_order: "arrival_order [] xs = xs"
  by (cases xs) simp_all

lemma settle_page_one:
  "for_page_one p \<Longrightarrow> currentPage (ui w) = 1 \<Longrightarrow> currentPage (ui (settle p w)) = 1"
  by (cases p)
    (simp_all add: loadOrders_end_cells loadOrderStats_end_keeps split: sum.splits option.splits)

lemma fold_settle_page_one:
  "list_all for_page_one ps \<Longrightarrow> currentPage (ui w) = 1 \<Longrightarrow>
     currentPage (ui (fold settle ps w)) = 1"
  by (induction ps arbitrary: w) (simp_all add: settle_page_one)

lemma list_all_arrival_order: "list_all P xs \<Longrightarrow> list_all P (arrival_order ns xs)"
  by (simp add: list_all_iff set_arrival_order)

lemma resetFilters_selectedOrders: "selectedOrders (ui (resetFilters a arrival r w)) = []"
  by (simp add: resetFilters_def Let_def fold_settle_keeps loadOrders_begin_keeps
      loadOrderStats_begin_keeps setter_defs)

lemma resetFilters_currentPage: "currentPage (ui (resetFilters a arrival r w)) = 1"
proof -
  have pending: "list_all for_page_one (arrival_order arrival ps)"
    if "list_all for_page_one ps" for ps
    using that by (rule list_all_arrival_order)
  show ?thesis
    unfolding resetFilters_def Let_def
    by (auto intro!: fold_settle_page_one pending
        simp: loadOrders_begin_keeps loadOrderStats_begin_keeps setter_defs)
qed

lemma handleExportOrders_keeps:
  "orders (ui (snd (handleExportOrders a today r w))) = orders (ui w)"
  "selectedOrders (ui (snd (handleExportOrders a today r w))) = selectedOrders (ui w)"
  by (simp_all add: handleExportOrders_defs setter_defs Let_def split: sum.splits option.splits)

lemma apply_all_rejected:
  "apply_all a newStatus ids srv = None \<Longrightarrow>
     \<exists>pre b post srv1 err. ids = pre @ b # post \<and> apply_all a newStatus pre srv = Some srv1 \<and>
        updateOrderStatus a srv1 b newStatus = Inl err"
proof (induction ids arbitrary: srv)
  case Nil
  then show ?case by simp
next
  case (Cons i ids)
  show ?case
  proof (cases "updateOrderStatus a srv i newStatus")
    case (Inl err)
    then have "i # ids = [] @ i # ids \<and> apply_all a newStatus [] srv = Some srv \<and>
        updateOrderStatus a srv i newStatus = Inl err"
      by simp
    then show ?thesis by blast
  next
    case (Inr srv0)
    with Cons.prems have "apply_all a newStatus ids srv0 = None" by simp
    from Cons.IH [OF this] obtain pre b post srv1 err where
      "ids = pre @ b # post" "apply_all a newStatus pre srv0 = Some srv1"
      "updateOrderStatus a srv1 b newStatus = Inl err"
      by blast
    with Inr have "i # ids = (i # pre) @ b # post \<and>
        apply_all a newStatus (i # pre) srv = Some srv1 \<and>
        updateOrderStatus a srv1 b newStatus = Inl err"
      by simp
    then show ?thesis by blast
  qed
qed

section \<open>The selection set where no page is loaded\<close>

text \<open>A bulk update empties the selection, or leaves selection and order list alone.\<close>

lemma handleBulkStatusUpdate_selection:
  "selectedOrders (ui (snd (handleBulkStatusUpdate a r newStatus w))) = [] \<or>
   selectedOrders (ui (snd (handleBulkStatusUpdate a r newStatus w))) = selectedOrders (ui w) \<and>
   orders (ui (snd (handleBulkStatusUpdate a r newStatus w))) = orders (ui w)"
proof (cases "selectedOrders r = []")
  case True
  then show ?thesis
    by (simp add: handleBulkStatusUpdate_none_selected toast_error_def)
next
  case False
  show ?thesis
  proof (cases "apply_all a newStatus (selectedOrders r) (server w)")
    case (Some srv2)
    from handleBulkStatusUpdate_applied(4) [OF False Some] show ?thesis by simp
  next
    case None
    from apply_all_rejected [OF None] obtain pre b post srv1 err where
      "selectedOrders r = pre @ b # post" "apply_all a newStatus pre (server w) = Some srv1"
      "updateOrderStatus a srv1 b newStatus = Inl err"
      by blast
    from handleBulkStatusUpdate_rejected(5) [OF this] show ?thesis by simp
  qed
qed

lemma selection_in_page_kept:
  "selection_in_page s \<Longrightarrow>
     selectedOrders s' = [] \<or> selectedOrders s' = selectedOrders s \<and> orders s' = orders s \<Longrightarrow>
     selection_in_page s'"
  by (auto simp: selection_in_page_def)

text \<open>
  Claim C2, amended: the selection set is a subset of the ids of the loaded orders
  after \<open>toggleAllOrders\<close> (which leaves it empty when as many ids were selected as
  orders are loaded, and equal to the set of the loaded ids otherwise), after clearing
  the selection and after \<open>resetFilters\<close> (which leave it empty), and, when it was a
  subset before, after \<open>toggleOrderSelection\<close> of the id of a loaded order, after
  \<open>loadOrderStats\<close>, after \<open>handleExportOrders\<close> and after
  \<open>handleBulkStatusUpdate\<close>. Nothing is stated about the operations that load a page
  while ids are selected.
\<close>

theorem selection_kept_where_no_page_is_loaded:
  "set (selectedOrders (ui (toggleAllOrders (ui w) w))) =
     (if length (selectedOrders (ui w)) = length (orders (ui w)) then {}
      else set (map oid (orders (ui w)))) \<and>
   selection_in_page (ui (toggleAllOrders (ui w) w)) \<and>
   selectedOrders (ui (clearSelection w)) = [] \<and>
   selection_in_page (ui (clearSelection w)) \<and>
   selectedOrders (ui (resetFilters a arrival (ui w) w)) = [] \<and>
   selection_in_page (ui (resetFilters a arrival (ui w) w)) \<and>
   (selection_in_page (ui w) \<and> x \<in> set (map oid (orders (ui w))) \<longrightarrow>
      selection_in_page (ui (toggleOrderSelection x (ui w) w))) \<and>
   (selection_in_page (ui w) \<longrightarrow>
      selection_in_page (ui (snd (loadOrderStats a (ui w) w)))) \<and>
   (selection_in_page (ui w) \<longrightarrow>
      selection_in_page (ui (snd (handleExportOrders a today (ui w) w)))) \<and>
   (selection_in_page (ui w) \<longrightarrow>
      selection_in_page (ui (snd (handleBulkStatusUpdate a (ui w) newStatus w))))"
proof -
  have all: "selection_in_page (ui (toggleAllOrders (ui w) w))"
    unfolding selection_in_page_def toggleAllOrders_selected toggleAllOrders_orders by simp
  have clear: "selectedOrders (ui (clearSelection w)) = []"
    by (simp add: clearSelection_def setSelectedOrders_def)
  have one: "selection_in_page (ui w) \<and> x \<in> set (map oid (orders (ui w))) \<longrightarrow>
      selection_in_page (ui (toggleOrderSelection x (ui w) w))"
    unfolding selection_in_page_def toggleOrderSelection_selected toggleOrderSelection_orders
    by auto
  have stats: "selection_in_page (ui w) \<longrightarrow>
      selection_in_page (ui (snd (loadOrderStats a (ui w) w)))"
    by (simp add: selection_in_page_def loadOrderStats_keeps)
  have export: "selection_in_page (ui w) \<longrightarrow>
      selection_in_page (ui (snd (handleExportOrders a today (ui w) w)))"
    by (simp add: selection_in_page_def handleExportOrders_keeps)
  have bulk: "selection_in_page (ui w) \<longrightarrow>
      selection_in_page (ui (snd (handleBulkStatusUpdate a (ui w) newStatus w)))"
    using selection_in_page_kept [OF _ handleBulkStatusUpdate_selection [of a "ui w" newStatus w]]
    by blast
  from all clear one stats export bulk
    toggleAllOrders_selected [of "ui w" w] resetFilters_selectedOrders [of a arrival "ui w" w]
  show ?thesis
    by (simp add: selection_in_page_def)
qed

lemma page_one_ids:
  "map oid (orders (ui three_selected)) =
     [''o01'', ''o02'', ''o03'', ''o04'', ''o05'', ''o06'', ''o07'', ''o08'', ''o09'', ''o10'']"
  by (simp add: three_selected_def sample_world_def initial_state_def page_one_def order_of_def)

theorem selection_kept_where_no_page_is_loaded_witness:
  "selection_in_page (ui three_selected) \<and>
   set (selectedOrders (ui (toggleAllOrders (ui three_selected) three_selected))) =
     {''o01'', ''o02'', ''o03'', ''o04'', ''o05'', ''o06'', ''o07'', ''o08'', ''o09'', ''o10''} \<and>
   selectedOrders (ui (toggleOrderSelection ''o04'' (ui three_selected) three_selected)) =
     [''o01'', ''o02'', ''o03'', ''o04''] \<and>
   selection_in_page (ui (toggleOrderSelection ''o04'' (ui three_selected) three_selected)) \<and>
   selectedOrders (ui (snd (handleBulkStatusUpdate rejecting_o02 (ui three_selected) ''shipped''
     three_selected))) = [''o01'', ''o02'', ''o03''] \<and>
   selection_in_page (ui (snd (handleBulkStatusUpdate rejecting_o02 (ui three_selected) ''shipped''
     three_selected))) \<and>
   selection_in_page (ui (snd (loadOrderStats rejecting_o02 (ui three_selected) three_selected)))"
proof -
  have inv: "selection_in_page (ui three_selected)"
    by (simp add: selection_in_page_def page_one_ids three_selected_cells)
  have loaded: "''o04'' \<in> set (map oid (orders (ui three_selected)))"
    by (simp add: page_one_ids)
  have sizes: "length (selectedOrders (ui three_selected)) \<noteq> length (orders (ui three_selected))"
    by (simp add: three_selected_def sample_world_def initial_state_def page_one_def)
  have toggled: "selectedOrders (ui (toggleOrderSelection ''o04'' (ui three_selected) three_selected))
      = [''o01'', ''o02'', ''o03'', ''o04'']"
    by (simp add: toggleOrderSelection_def Let_def setSelectedOrders_def set_add_def
        three_selected_cells)
  have sel: "selectedOrders (ui three_selected) = [''o01''] @ ''o02'' # [''o03'']"
    by (simp add: three_selected_cells)
  have pre: "apply_all rejecting_o02 ''shipped'' [''o01''] (server three_selected) =
      Some (all_pending(''o01'' \<mapsto> ''shipped''))"
    by (simp add: rejecting_o02_updates three_selected_cells)
  have kept: "selectedOrders (ui (snd (handleBulkStatusUpdate rejecting_o02 (ui three_selected)
      ''shipped'' three_selected))) = [''o01'', ''o02'', ''o03'']"
    unfolding handleBulkStatusUpdate_rejected(5) [OF sel pre rejecting_o02_updates(2)]
    by (simp add: three_selected_cells)
  from selection_kept_where_no_page_is_loaded
      [of three_selected rejecting_o02 "[]" "''o04''" "''2024-02-01''" "''shipped''"]
    inv loaded sizes toggled kept
  show ?thesis
    by (simp add: page_one_ids)
qed

section \<open>Filter changes on a failing list request, and the Reset control\<close>

lemma resetFilters_calls:
  "calls (resetFilters a arrival r w) =
     calls w @ [GetAllOrders (loadOrders_params r 1), GetOrderStats (loadOrderStats_params r)]
       @ (if deps r \<noteq> (None, None, [], [], ''createdAt'', ''desc'')
          then [GetAllOrders [(''page'', JNum 1), (''limit'', JNum 10), (''status'', JStr []),
                              (''search'', JStr []), (''sortField'', JStr ''createdAt''),
                              (''sortOrder'', JStr ''desc'')],
                GetOrderStats []]
          else [])"
proof -
  let ?w1 = "setSelectedOrders [] (setCurrentPage 1 (setSortOrder ''desc''
      (setSortField ''createdAt'' (setSearchTerm [] (setFilterStatus []
        (setDateRange (None, None) w))))))"
  let ?r' = "ui (loadOrderStats_begin r (loadOrders_begin r 1 ?w1))"
  have d: "deps ?r' = (None, None, [], [], ''createdAt'', ''desc'')"
    by (simp add: deps_def loadOrderStats_begin_def loadOrders_begin_def setter_defs)
  have p1: "loadOrders_params ?r' 1 =
      [(''page'', JNum 1), (''limit'', JNum 10), (''status'', JStr []), (''search'', JStr []),
       (''sortField'', JStr ''createdAt''), (''sortOrder'', JStr ''desc'')]"
    by (simp add: loadOrders_params_def ITEMS_PER_PAGE_def spread_date_def
        loadOrderStats_begin_def loadOrders_begin_def setter_defs)
  have p2: "loadOrderStats_params ?r' = []"
    by (simp add: loadOrderStats_params_def spread_date_def
        loadOrderStats_begin_def loadOrders_begin_def setter_defs)
  have c: "calls ?w1 = calls w"
    by (simp add: setter_defs)
  show ?thesis
    unfolding resetFilters_def Let_def
    by (auto simp: d p1 p2 fold_settle_keeps loadOrders_begin_keeps loadOrderStats_begin_keeps c)
qed

lemma filtered_view_cells:
  "deps (ui filtered_view) = (Some 1, Some 2, ''pending'', ''rice'', ''totalAmount'', ''asc'')"
  "calls filtered_view = []"
  "currentPage (ui filtered_view) = 2"
  "loadOrders_params (ui filtered_view) 1 =
     [(''page'', JNum 1), (''limit'', JNum 10), (''status'', JStr ''pending''),
      (''search'', JStr ''rice''), (''sortField'', JStr ''totalAmount''),
      (''sortOrder'', JStr ''asc''), (''startDate'', JStr ''2024-01-01T00:00:00.000Z''),
      (''endDate'', JStr ''2024-01-31T00:00:00.000Z'')]"
  "loadOrderStats_params (ui filtered_view) =
     [(''startDate'', JStr ''2024-01-01T00:00:00.000Z''),
      (''endDate'', JStr ''2024-01-31T00:00:00.000Z'')]"
  by (simp_all add: filtered_view_def sample_world_def initial_state_def deps_def
      loadOrders_params_def loadOrderStats_params_def ITEMS_PER_PAGE_def spread_date_def
      toISOString_def)

lemma status_shipped_on_page_two:
  "deps (ui (apply_change (StatusChange ''shipped'') (ui showing_page_two) showing_page_two)) =
     (None, None, ''shipped'', [], ''createdAt'', ''desc'')"
  by (simp add: showing_page_two_def sample_world_def initial_state_def deps_def setter_defs)

text \<open>
  Claim C5: every change of a filter field resets the page number to 1 and issues
  exactly one \<open>listOrders\<close> call and one \<open>getStats\<close> call, each with the parameters
  of the new query state. The code at two inputs it can receive. On page 2, while the
  list request fails with a network error, typing \<^verbatim>\<open>rice\<close> into the search box
  leaves the page number at 2, whichever answer arrives first, where choosing a status
  gives 1, as the status and date controls call \<open>setCurrentPage(1)\<close> and the search
  and sort controls do not. With a status, a search text, a sort and a date range set,
  the Reset control gives page 1 and sends two \<open>listOrders\<close> and two \<open>getStats\<close>
  calls, the first pair still with the filters of before the reset.
\<close>

theorem filter_change_page_and_requests_at_failing_inputs:
  "deps (ui (apply_change (SearchChange ''rice'') (ui showing_page_two) showing_page_two))
     \<noteq> deps (ui showing_page_two) \<and>
   currentPage (ui showing_page_two) = 2 \<and>
   currentPage (ui (change_filter list_down True (SearchChange ''rice'') showing_page_two)) = 2 \<and>
   currentPage (ui (change_filter list_down False (SearchChange ''rice'') showing_page_two)) = 2 \<and>
   currentPage (ui (change_filter list_down True (StatusChange ''shipped'') showing_page_two)) = 1 \<and>
   currentPage (ui (resetFilters list_down [] (ui filtered_view) filtered_view)) = 1 \<and>
   calls (resetFilters accepting [] (ui filtered_view) filtered_view) =
     [GetAllOrders [(''page'', JNum 1), (''limit'', JNum 10), (''status'', JStr ''pending''),
                    (''search'', JStr ''rice''), (''sortField'', JStr ''totalAmount''),
                    (''sortOrder'', JStr ''asc''),
                    (''startDate'', JStr ''2024-01-01T00:00:00.000Z''),
                    (''endDate'', JStr ''2024-01-31T00:00:00.000Z'')],
      GetOrderStats [(''startDate'', JStr ''2024-01-01T00:00:00.000Z''),
                     (''endDate'', JStr ''2024-01-31T00:00:00.000Z'')],
      GetAllOrders [(''page'', JNum 1), (''limit'', JNum 10), (''status'', JStr []),
                    (''search'', JStr []), (''sortField'', JStr ''createdAt''),
                    (''sortOrder'', JStr ''desc'')],
      GetOrderStats []]"
proof -
  have search:
    "deps (ui (apply_change (SearchChange ''rice'') (ui showing_page_two) showing_page_two))
       \<noteq> deps (ui showing_page_two)"
    unfolding search_rice_on_page_two showing_page_two_cells by simp
  have status:
    "deps (ui (apply_change (StatusChange ''shipped'') (ui showing_page_two) showing_page_two))
       \<noteq> deps (ui showing_page_two)"
    unfolding status_shipped_on_page_two showing_page_two_cells by simp
  have failed: "orders_request_failed (getAllOrders list_down srv p)" for srv p
    by (simp add: list_down_def sample_api_def orders_request_failed_def)
  have typed: "currentPage (ui (change_filter list_down b (SearchChange ''rice'') showing_page_two))
      = 2" for b
    by (simp add: change_filter_currentPage [OF search] failed showing_page_two_cells)
  have chosen:
    "currentPage (ui (change_filter list_down True (StatusChange ''shipped'') showing_page_two)) = 1"
    by (simp add: change_filter_currentPage [OF status] failed)
  have sent: "calls (resetFilters accepting [] (ui filtered_view) filtered_view) =
      [GetAllOrders (loadOrders_params (ui filtered_view) 1),
       GetOrderStats (loadOrderStats_params (ui filtered_view)),
       GetAllOrders [(''page'', JNum 1), (''limit'', JNum 10), (''status'', JStr []),
                     (''search'', JStr []), (''sortField'', JStr ''createdAt''),
                     (''sortOrder'', JStr ''desc'')],
       GetOrderStats []]"
    unfolding resetFilters_calls by (simp add: filtered_view_cells(1,2))
  from search typed chosen sent [unfolded filtered_view_cells(4,5)]
    resetFilters_currentPage [of list_down "[]" "ui filtered_view" filtered_view]
  show ?thesis
    by (simp add: showing_page_two_cells)
qed

end
